theory Spec2Isabelle
  imports Complex_Main
begin

section \<open>Data model\<close>

text \<open>
  The Bug schema (models/Bug.ts) restricts \<open>status\<close>, \<open>priority\<close> and \<open>type\<close> to fixed
  enumerations; stored documents carry one of these values. The strings are the
  schema's \<open>enum.values\<close>.
\<close>

datatype status = Open | InProgress | Resolved | Closed | Reopened

datatype priority = Low | Medium | High | Critical

datatype bug_type = Bug | Feature | Improvement | Task

fun status_str :: "status \<Rightarrow> string" where
  "status_str Open = ''open''"
| "status_str InProgress = ''in-progress''"
| "status_str Resolved = ''resolved''"
| "status_str Closed = ''closed''"
| "status_str Reopened = ''reopened''"

fun priority_str :: "priority \<Rightarrow> string" where
  "priority_str Low = ''low''"
| "priority_str Medium = ''medium''"
| "priority_str High = ''high''"
| "priority_str Critical = ''critical''"

fun type_str :: "bug_type \<Rightarrow> string" where
  "type_str Bug = ''bug''"
| "type_str Feature = ''feature''"
| "type_str Improvement = ''improvement''"
| "type_str Task = ''task''"

text \<open>
  A string is a sequence of code units, here those below 256. Object identifiers
  are kept in their canonical form, the 24-digit lower-case hexadecimal string.
  Dates are milliseconds since the epoch, as a JavaScript \<open>Date\<close> holds them.
  \<open>assignedTo\<close> and \<open>resolvedAt\<close> default to \<open>null\<close> (\<open>None\<close>).
\<close>

record user =
  firstName :: string
  lastName :: string

record bug =
  bug_id :: string
  title :: string
  description :: string
  priority :: priority
  status :: status
  bug_type :: bug_type
  assignedTo :: "string option"
  reporter :: string
  resolvedAt :: "int option"
  createdAt :: int
  updatedAt :: int

section \<open>CSV serialisation (GET /api/bugs/export, lines 137-169)\<close>

text \<open>\<open>field.replace(/"/g, '""')\<close>: every double quote (character 0x22) is doubled.\<close>

fun replace_quotes :: "string \<Rightarrow> string" where
  "replace_quotes [] = []"
| "replace_quotes (c # cs) =
     (if c = CHR 0x22 then CHR 0x22 # CHR 0x22 # replace_quotes cs
      else c # replace_quotes cs)"

definition escapeCSV :: "string \<Rightarrow> string" where
  "escapeCSV field =
     (if CHR '','' \<in> set field \<or> CHR 0x22 \<in> set field \<or> CHR 0x0A \<in> set field
      then [CHR 0x22] @ replace_quotes field @ [CHR 0x22]
      else field)"

text \<open>\<open>Array.prototype.join\<close>.\<close>

fun join :: "string \<Rightarrow> string list \<Rightarrow> string" where
  "join sep [] = []"
| "join sep [x] = x"
| "join sep (x # y # ys) = x @ sep @ join sep (y # ys)"

definition csvHeader :: string where
  "csvHeader =
     ''ID,Title,Description,Status,Priority,Type,Assigned To,Reporter,Created At,Updated At''
     @ [CHR 0x0A]"

text \<open>
  \<open>populate\<close> replaces a reference by the referenced user document, or by \<open>null\<close> when
  there is no such user; the export then prints first and last name, or a fallback
  literal. \<open>users\<close> is the user collection, as a lookup by identifier.
\<close>

definition assignedTo_name :: "(string \<Rightarrow> user option) \<Rightarrow> bug \<Rightarrow> string" where
  "assignedTo_name users b =
     (case Option.bind (assignedTo b) users of
        Some u \<Rightarrow> firstName u @ '' '' @ lastName u
      | None \<Rightarrow> ''Unassigned'')"

definition reporter_name :: "(string \<Rightarrow> user option) \<Rightarrow> bug \<Rightarrow> string" where
  "reporter_name users b =
     (case users (reporter b) of
        Some u \<Rightarrow> firstName u @ '' '' @ lastName u
      | None \<Rightarrow> ''Unknown'')"

text \<open>
  The values of the ten columns of a row before serialisation, and the array the
  handler joins with commas. \<open>toISOString\<close> is the host's \<open>Date.prototype.toISOString\<close>.
  Only the title, the description and the two display names go through \<open>escapeCSV\<close>.
\<close>

definition column_values :: "(string \<Rightarrow> user option) \<Rightarrow> (int \<Rightarrow> string) \<Rightarrow> bug \<Rightarrow> string list" where
  "column_values users toISOString b =
     [bug_id b,
      title b,
      (if description b = [] then [] else description b),
      status_str (status b),
      priority_str (priority b),
      type_str (bug_type b),
      assignedTo_name users b,
      reporter_name users b,
      toISOString (createdAt b),
      toISOString (updatedAt b)]"

definition csv_fields :: "(string \<Rightarrow> user option) \<Rightarrow> (int \<Rightarrow> string) \<Rightarrow> bug \<Rightarrow> string list" where
  "csv_fields users toISOString b =
     [bug_id b,
      escapeCSV (title b),
      escapeCSV (if description b = [] then [] else description b),
      status_str (status b),
      priority_str (priority b),
      type_str (bug_type b),
      escapeCSV (assignedTo_name users b),
      escapeCSV (reporter_name users b),
      toISOString (createdAt b),
      toISOString (updatedAt b)]"

definition csv_row :: "(string \<Rightarrow> user option) \<Rightarrow> (int \<Rightarrow> string) \<Rightarrow> bug \<Rightarrow> string" where
  "csv_row users toISOString b = join '','' (csv_fields users toISOString b)"

text \<open>The three characters that trigger quoting.\<close>

definition needs_quoting :: "string \<Rightarrow> bool" where
  "needs_quoting s \<longleftrightarrow> CHR '','' \<in> set s \<or> CHR 0x22 \<in> set s \<or> CHR 0x0A \<in> set s"

text \<open>
  In the words of the specification: the quoted form of a value, the serialised
  form of a value, and a sequence of strings written with a separator between
  neighbours.
\<close>

definition quoted :: "string \<Rightarrow> string" where
  "quoted s =
     CHR 0x22 # concat (map (\<lambda>c. if c = CHR 0x22 then [CHR 0x22, CHR 0x22] else [c]) s)
     @ [CHR 0x22]"

definition serialized :: "string \<Rightarrow> string" where
  "serialized v = (if needs_quoting v then quoted v else v)"

definition separated_by :: "string \<Rightarrow> string list \<Rightarrow> string" where
  "separated_by sep xs =
     (case xs of [] \<Rightarrow> [] | x # rest \<Rightarrow> x @ concat (map (\<lambda>y. sep @ y) rest))"

section \<open>Request queries and store predicates\<close>

text \<open>
  \<open>req.query\<close>: each recognised key is absent (\<open>None\<close>) or carries a string. (Repeated
  keys, which the query parser would turn into arrays, are not modelled.)
\<close>

record query =
  q_page :: "string option"
  q_limit :: "string option"
  q_status :: "string option"
  q_priority :: "string option"
  q_type :: "string option"
  q_assignedTo :: "string option"
  q_reporter :: "string option"
  q_unassigned :: "string option"
  q_search :: "string option"

text \<open>JavaScript truthiness of an optional string: \<open>undefined\<close> and \<open>''\<close> are falsy.\<close>

definition truthy :: "string option \<Rightarrow> bool" where
  "truthy v \<longleftrightarrow> (case v of None \<Rightarrow> False | Some s \<Rightarrow> s \<noteq> [])"

text \<open>
  The filter object handed to the store. A key is absent (\<open>None\<close>) or present; the
  value of \<open>assignedTo\<close> is a string or \<open>null\<close>. \<open>f_or\<close> is the pattern of the
  \<open>$or\<close> clause, whose two branches apply \<open>$regex\<close> with \<open>$options: 'i'\<close> to the
  title and to the description.
\<close>

datatype field_value = Null | Str string

record filter =
  f_status :: "string option"
  f_priority :: "string option"
  f_type :: "string option"
  f_assignedTo :: "field_value option"
  f_reporter :: "string option"
  f_or :: "string option"

definition empty_filter :: filter where
  "empty_filter =
     \<lparr>f_status = None, f_priority = None, f_type = None, f_assignedTo = None,
      f_reporter = None, f_or = None\<rparr>"

text \<open>GET /api/bugs, lines 41-62.\<close>

definition list_filter :: "query \<Rightarrow> filter" where
  "list_filter q =
     (let f0 = empty_filter;
          f1 = (if truthy (q_status q) then f0\<lparr>f_status := q_status q\<rparr> else f0);
          f2 = (if truthy (q_priority q) then f1\<lparr>f_priority := q_priority q\<rparr> else f1);
          f3 = (if truthy (q_type q) then f2\<lparr>f_type := q_type q\<rparr> else f2);
          f4 = (if truthy (q_assignedTo q)
                then f3\<lparr>f_assignedTo := map_option Str (q_assignedTo q)\<rparr> else f3);
          f5 = (if truthy (q_reporter q) then f4\<lparr>f_reporter := q_reporter q\<rparr> else f4);
          f6 = (if q_unassigned q = Some ''true'' then f5\<lparr>f_assignedTo := Some Null\<rparr> else f5);
          f7 = (if truthy (q_search q) then f6\<lparr>f_or := q_search q\<rparr> else f6)
      in f7)"

text \<open>GET /api/bugs/export, lines 109-129.\<close>

definition export_filter :: "query \<Rightarrow> filter" where
  "export_filter q =
     (let f0 = empty_filter;
          f1 = (if truthy (q_status q) then f0\<lparr>f_status := q_status q\<rparr> else f0);
          f2 = (if truthy (q_priority q) then f1\<lparr>f_priority := q_priority q\<rparr> else f1);
          f3 = (if truthy (q_type q) then f2\<lparr>f_type := q_type q\<rparr> else f2);
          f4 = (if truthy (q_assignedTo q)
                then f3\<lparr>f_assignedTo := map_option Str (q_assignedTo q)\<rparr> else f3);
          f5 = (if truthy (q_reporter q) then f4\<lparr>f_reporter := q_reporter q\<rparr> else f4);
          f6 = (if q_unassigned q = Some ''true'' then f5\<lparr>f_assignedTo := Some Null\<rparr> else f5);
          f7 = (if truthy (q_search q) then f6\<lparr>f_or := q_search q\<rparr> else f6)
      in f7)"

section \<open>The validator chain of GET /api/bugs (lines 17-35)\<close>

text \<open>
  The validators are those of express-validator (validator.js):
  \<^item> \<open>isIn\<close> is membership in the given list;
  \<^item> \<open>isMongoId\<close> is \<open>isHexadecimal(str) && str.length === 24\<close>, and \<open>isHexadecimal\<close>
    matches \<open>/^(0x|0h)?[0-9A-F]+$/i\<close>: hexadecimal digits, optionally after a prefix
    \<open>0x\<close> or \<open>0h\<close> that counts towards the length;
  \<^item> \<open>isInt\<close> matches \<open>/^[-+]?[0-9]+$/\<close> (leading zeroes are allowed unless the option
    \<open>allow_leading_zeroes\<close> is \<open>false\<close>) and compares the number the string denotes
    with the bounds.
  \<open>optional()\<close> skips a key that is absent, and nothing else: an empty string is
  validated.
\<close>

definition is_digit :: "char \<Rightarrow> bool" where
  "is_digit c \<longleftrightarrow> c \<in> set ''0123456789''"

definition is_hex_digit :: "char \<Rightarrow> bool" where
  "is_hex_digit c \<longleftrightarrow> c \<in> set ''0123456789abcdefABCDEF''"

definition digit_value :: "char \<Rightarrow> int option" where
  "digit_value =
     map_of (zip ''0123456789abcdefABCDEF''
       [0, 1, 2, 3, 4, 5, 6, 7, 8, 9, 10, 11, 12, 13, 14, 15, 10, 11, 12, 13, 14, 15])"

definition isHexadecimal :: "string \<Rightarrow> bool" where
  "isHexadecimal s \<longleftrightarrow>
     (s \<noteq> [] \<and> list_all is_hex_digit s)
     \<or> (take 2 s \<in> set [''0x'', ''0X'', ''0h'', ''0H'']
        \<and> drop 2 s \<noteq> [] \<and> list_all is_hex_digit (drop 2 s))"

definition isMongoId :: "string \<Rightarrow> bool" where
  "isMongoId s \<longleftrightarrow> isHexadecimal s \<and> length s = 24"

definition strip_sign :: "string \<Rightarrow> bool \<times> string" where
  "strip_sign s =
     (case s of
        [] \<Rightarrow> (False, s)
      | c # r \<Rightarrow> if c = CHR ''-'' then (True, r) else if c = CHR ''+'' then (False, r) else (False, s))"

definition decimal_value :: "string \<Rightarrow> int" where
  "decimal_value ds = foldl (\<lambda>a c. 10 * a + (case digit_value c of Some d \<Rightarrow> d | None \<Rightarrow> 0)) 0 ds"

definition isInt :: "int \<Rightarrow> int option \<Rightarrow> string \<Rightarrow> bool" where
  "isInt lo hi s =
     (let (neg, body) = strip_sign s;
          v = (if neg then - decimal_value body else decimal_value body)
      in body \<noteq> [] \<and> list_all is_digit body
         \<and> lo \<le> v \<and> (case hi of None \<Rightarrow> True | Some h \<Rightarrow> v \<le> h))"

definition check :: "string \<Rightarrow> string option \<Rightarrow> (string \<Rightarrow> bool) \<Rightarrow> string list" where
  "check name v ok = (case v of None \<Rightarrow> [] | Some s \<Rightarrow> if ok s then [] else [name])"

text \<open>The names of the offending keys, in the order of the chain (\<open>errors.array()\<close>).\<close>

definition validate_list :: "query \<Rightarrow> string list" where
  "validate_list q =
     check ''page'' (q_page q) (isInt 1 None)
     @ check ''limit'' (q_limit q) (isInt 1 (Some 100))
     @ check ''status'' (q_status q)
         (\<lambda>s. s \<in> set [''open'', ''in-progress'', ''resolved'', ''closed'', ''reopened''])
     @ check ''priority'' (q_priority q) (\<lambda>s. s \<in> set [''low'', ''medium'', ''high'', ''critical''])
     @ check ''type'' (q_type q) (\<lambda>s. s \<in> set [''bug'', ''feature'', ''improvement'', ''task''])
     @ check ''assignedTo'' (q_assignedTo q) isMongoId
     @ check ''reporter'' (q_reporter q) isMongoId
     @ check ''search'' (q_search q) (\<lambda>s. True)"

section \<open>Numbers\<close>

text \<open>
  A JavaScript number is an IEEE double. The numbers of the listing handler are
  integers, infinities or \<open>NaN\<close>: \<open>Num n\<close> is the double whose value is the integer
  \<open>n\<close>. \<open>to_Number i\<close> is the double nearest to the integer \<open>i\<close>: the integer itself
  up to \<open>2^53\<close> in magnitude, beyond that the integer rounded to 53 significant bits,
  ties to the even significand, and an infinity from \<open>2^1024\<close> on.
\<close>

datatype number = NaN | Num int | Infinity | NegInfinity

function shift_count :: "int \<Rightarrow> nat" where
  "shift_count a = (if a < 9007199254740992 then 0 else Suc (shift_count (a div 2)))"
  by pat_completeness auto
termination
  by (relation "measure nat") auto

declare shift_count.simps [simp del]

definition round_half_even :: "int \<Rightarrow> nat \<Rightarrow> int" where
  "round_half_even a e =
     (let q = a div 2 ^ e; r = a mod 2 ^ e
      in (if 2 * r > 2 ^ e \<or> (2 * r = 2 ^ e \<and> odd q) then q + 1 else q) * 2 ^ e)"

definition to_Number :: "int \<Rightarrow> number" where
  "to_Number i =
     (let m = round_half_even \<bar>i\<bar> (shift_count \<bar>i\<bar>)
      in if m \<ge> 2 ^ 1024 then (if i < 0 then NegInfinity else Infinity)
         else Num (if i < 0 then - m else m))"

text \<open>The operators \<open><\<close>, \<open>-\<close> and \<open>*\<close> on these numbers.\<close>

fun num_less :: "number \<Rightarrow> number \<Rightarrow> bool" where
  "num_less (Num a) (Num b) = (a < b)"
| "num_less (Num a) Infinity = True"
| "num_less NegInfinity (Num b) = True"
| "num_less NegInfinity Infinity = True"
| "num_less x y = False"

fun num_minus :: "number \<Rightarrow> number \<Rightarrow> number" where
  "num_minus (Num a) (Num b) = to_Number (a - b)"
| "num_minus NaN y = NaN"
| "num_minus x NaN = NaN"
| "num_minus Infinity Infinity = NaN"
| "num_minus NegInfinity NegInfinity = NaN"
| "num_minus Infinity y = Infinity"
| "num_minus NegInfinity y = NegInfinity"
| "num_minus (Num a) Infinity = NegInfinity"
| "num_minus (Num a) NegInfinity = Infinity"

fun num_times :: "number \<Rightarrow> number \<Rightarrow> number" where
  "num_times (Num a) (Num b) = to_Number (a * b)"
| "num_times NaN y = NaN"
| "num_times x NaN = NaN"
| "num_times (Num a) Infinity = (if a = 0 then NaN else if a > 0 then Infinity else NegInfinity)"
| "num_times (Num a) NegInfinity = (if a = 0 then NaN else if a > 0 then NegInfinity else Infinity)"
| "num_times Infinity (Num b) = (if b = 0 then NaN else if b > 0 then Infinity else NegInfinity)"
| "num_times NegInfinity (Num b) = (if b = 0 then NaN else if b > 0 then NegInfinity else Infinity)"
| "num_times Infinity Infinity = Infinity"
| "num_times NegInfinity NegInfinity = Infinity"
| "num_times Infinity NegInfinity = NegInfinity"
| "num_times NegInfinity Infinity = NegInfinity"

section \<open>Page and limit (GET /api/bugs, lines 37-39)\<close>

text \<open>
  \<open>parseInt\<close> without a radix: leading white space is skipped, a sign is read, a
  \<open>0x\<close> prefix selects radix 16, and the longest prefix of digits is read; the result
  is the double nearest to the integer read, and \<open>NaN\<close> when there is no digit.
  \<open>parseInt(undefined)\<close> is \<open>NaN\<close>.
\<close>

definition js_whitespace :: "char \<Rightarrow> bool" where
  "js_whitespace c \<longleftrightarrow>
     c \<in> set [CHR 0x09, CHR 0x0A, CHR 0x0B, CHR 0x0C, CHR 0x0D, CHR 0x20, CHR 0xA0]"

fun read_digits :: "int \<Rightarrow> string \<Rightarrow> int list" where
  "read_digits radix [] = []"
| "read_digits radix (c # cs) =
     (case digit_value c of
        None \<Rightarrow> []
      | Some d \<Rightarrow> if d < radix then d # read_digits radix cs else [])"

definition parseInt :: "string option \<Rightarrow> number" where
  "parseInt v =
     (case v of
        None \<Rightarrow> NaN
      | Some s \<Rightarrow>
          (let (neg, t) = strip_sign (dropWhile js_whitespace s);
               (radix, u) = (if take 2 t = ''0x'' \<or> take 2 t = ''0X'' then (16, drop 2 t) else (10, t));
               ds = read_digits radix u;
               n = foldl (\<lambda>a d. radix * a + d) 0 ds
           in if ds = [] then NaN else to_Number (if neg then - n else n)))"

text \<open>\<open>x || d\<close> on a number: \<open>NaN\<close> and \<open>0\<close> are falsy.\<close>

definition or_default :: "number \<Rightarrow> int \<Rightarrow> number" where
  "or_default x d = (if x = NaN \<or> x = Num 0 then Num d else x)"

section \<open>The pagination envelope (GET /api/bugs, lines 77-89)\<close>

record pagination =
  currentPage :: number
  totalPages :: number
  totalCount :: nat
  hasNext :: bool
  hasPrev :: bool

text \<open>
  \<open>Math.ceil(totalCount / limit)\<close>. For a limit that is a non-zero integer it is the
  ceiling of the exact quotient (the quotient of a count of documents by such a
  limit is computed without a rounding error that reaches an integer). \<open>limit\<close> is
  never \<open>0\<close> in the handler: \<open>parseInt(...) || 10\<close> replaces it.
\<close>

definition ceil_quotient :: "nat \<Rightarrow> number \<Rightarrow> number" where
  "ceil_quotient cnt limit =
     (case limit of
        NaN \<Rightarrow> NaN
      | Num b \<Rightarrow>
          if b = 0 then (if cnt = 0 then NaN else Infinity)
          else Num \<lceil>real cnt / real_of_int b\<rceil>
      | Infinity \<Rightarrow> Num 0
      | NegInfinity \<Rightarrow> Num 0)"

definition paginate :: "nat \<Rightarrow> number \<Rightarrow> number \<Rightarrow> pagination" where
  "paginate cnt page limit =
     (let pages = ceil_quotient cnt limit
      in \<lparr>currentPage = page, totalPages = pages, totalCount = cnt,
          hasNext = num_less page pages, hasPrev = num_less (Num 1) page\<rparr>)"

text \<open>
  The client's \<open>bugsApi.getBugs\<close> (lines 688-696 of the client API module) rebuilds the
  envelope it received, replacing falsy members by defaults; \<open>n\<close> is the number of
  records on the page received. The envelope arrives as JSON, where a number that is
  not finite is written \<open>null\<close>, which is falsy like \<open>0\<close>.
\<close>

definition json_falsy :: "number \<Rightarrow> bool" where
  "json_falsy x \<longleftrightarrow> (case x of Num n \<Rightarrow> n = 0 | _ \<Rightarrow> True)"

definition client_pagination :: "pagination \<Rightarrow> nat \<Rightarrow> pagination" where
  "client_pagination p n =
     \<lparr>currentPage = (if json_falsy (currentPage p) then Num 1 else currentPage p),
      totalPages = (if json_falsy (totalPages p) then Num 1 else totalPages p),
      totalCount = (if totalCount p = 0 then n else totalCount p),
      hasNext = (hasNext p \<or> False),
      hasPrev = (hasPrev p \<or> False)\<rparr>"

section \<open>The store\<close>

text \<open>
  The persistence engine (MongoDB behind Mongoose) is not part of the repository. It
  is modelled by the committed documents and by the semantics of the operators the
  handlers use:
  \<^item> a filter key on a string path is an equality;
  \<^item> a filter key on an identifier path is cast to an identifier first: a string of
    24 hexadecimal digits becomes the identifier it denotes, any other string makes
    the query fail; \<open>null\<close> matches the documents whose reference is \<open>null\<close>;
  \<^item> \<open>$regex\<close> with option \<open>i\<close> searches the text for the pattern, ignoring case. The
    pattern language is the engine's own, so the engine is a component of the store:
    \<open>regex_i st p\<close> is \<open>None\<close> when the engine rejects \<open>p\<close>, and otherwise the
    search predicate of \<open>p\<close>;
  \<^item> \<open>sort({createdAt: -1})\<close> orders by descending creation time, documents with
    equal times staying in their stored order.
\<close>

record store =
  bugs :: "bug list"
  users :: "string \<Rightarrow> user option"
  regex_i :: "string \<Rightarrow> (string \<Rightarrow> bool) option"

datatype store_error = CastError | RegexError

definition toLowerCase_char :: "char \<Rightarrow> char" where
  "toLowerCase_char c =
     (case map_of (zip ''ABCDEFGHIJKLMNOPQRSTUVWXYZ'' ''abcdefghijklmnopqrstuvwxyz'') c of
        Some l \<Rightarrow> l
      | None \<Rightarrow> c)"

definition castObjectId :: "string \<Rightarrow> string option" where
  "castObjectId s =
     (if length s = 24 \<and> list_all is_hex_digit s then Some (map toLowerCase_char s) else None)"

definition cast_assignedTo :: "field_value option \<Rightarrow> store_error + (bug \<Rightarrow> bool)" where
  "cast_assignedTo v =
     (case v of
        None \<Rightarrow> Inr (\<lambda>b. True)
      | Some Null \<Rightarrow> Inr (\<lambda>b. assignedTo b = None)
      | Some (Str s) \<Rightarrow>
          (case castObjectId s of
             None \<Rightarrow> Inl CastError
           | Some i \<Rightarrow> Inr (\<lambda>b. assignedTo b = Some i)))"

definition cast_reporter :: "string option \<Rightarrow> store_error + (bug \<Rightarrow> bool)" where
  "cast_reporter v =
     (case v of
        None \<Rightarrow> Inr (\<lambda>b. True)
      | Some s \<Rightarrow>
          (case castObjectId s of
             None \<Rightarrow> Inl CastError
           | Some i \<Rightarrow> Inr (\<lambda>b. reporter b = i)))"

definition compile_or :: "(string \<Rightarrow> (string \<Rightarrow> bool) option) \<Rightarrow> string option \<Rightarrow> store_error + (bug \<Rightarrow> bool)" where
  "compile_or rx v =
     (case v of
        None \<Rightarrow> Inr (\<lambda>b. True)
      | Some p \<Rightarrow>
          (case rx p of
             None \<Rightarrow> Inl RegexError
           | Some m \<Rightarrow> Inr (\<lambda>b. m (title b) \<or> m (description b))))"

definition eq_str :: "string option \<Rightarrow> string \<Rightarrow> bool" where
  "eq_str v s \<longleftrightarrow> (case v of None \<Rightarrow> True | Some x \<Rightarrow> s = x)"

text \<open>The predicate a filter denotes: the conjunction of its keys.\<close>

definition compile_filter :: "(string \<Rightarrow> (string \<Rightarrow> bool) option) \<Rightarrow> filter \<Rightarrow> store_error + (bug \<Rightarrow> bool)" where
  "compile_filter rx f =
     (case cast_assignedTo (f_assignedTo f) of
        Inl e \<Rightarrow> Inl e
      | Inr pa \<Rightarrow>
     (case cast_reporter (f_reporter f) of
        Inl e \<Rightarrow> Inl e
      | Inr pr \<Rightarrow>
     (case compile_or rx (f_or f) of
        Inl e \<Rightarrow> Inl e
      | Inr po \<Rightarrow>
          Inr (\<lambda>b. eq_str (f_status f) (status_str (status b))
                 \<and> eq_str (f_priority f) (priority_str (priority b))
                 \<and> eq_str (f_type f) (type_str (bug_type b))
                 \<and> pa b \<and> pr b \<and> po b))))"

text \<open>\<open>Bug.find(filter).sort({createdAt: -1})\<close> and \<open>Bug.countDocuments(filter)\<close>.\<close>

definition find_sorted :: "store \<Rightarrow> filter \<Rightarrow> store_error + bug list" where
  "find_sorted st f =
     (case compile_filter (regex_i st) f of
        Inl e \<Rightarrow> Inl e
      | Inr p \<Rightarrow> Inr (sort_key (\<lambda>b. - createdAt b) (filter p (bugs st))))"

definition countDocuments :: "store \<Rightarrow> filter \<Rightarrow> store_error + nat" where
  "countDocuments st f =
     (case compile_filter (regex_i st) f of
        Inl e \<Rightarrow> Inl e
      | Inr p \<Rightarrow> Inr (length (filter p (bugs st))))"

section \<open>The listing and export handlers\<close>

datatype 'a response = Ok200 'a | BadRequest400 "string list" | NotFound404 | ServerError500

record listing =
  data_bugs :: "bug list"
  data_pagination :: pagination

text \<open>
  GET /api/bugs (lines 26-100). \<open>skip(n)\<close> leaves out the first \<open>n\<close> matches (all of
  them when \<open>n\<close> is not below their number), \<open>limit(n)\<close> keeps at most \<open>n\<close>; after
  the validator chain the limit is an integer from 1 to 100 and the skip is not
  negative. A rejected promise of \<open>Promise.all\<close> is caught and answered with status
  500.
\<close>

definition skip_docs :: "number \<Rightarrow> 'a list \<Rightarrow> 'a list" where
  "skip_docs x xs = (case x of Num n \<Rightarrow> drop (nat n) xs | Infinity \<Rightarrow> [] | _ \<Rightarrow> xs)"

definition limit_docs :: "number \<Rightarrow> 'a list \<Rightarrow> 'a list" where
  "limit_docs x xs = (case x of Num n \<Rightarrow> take (nat n) xs | _ \<Rightarrow> xs)"

definition list_bugs :: "store \<Rightarrow> query \<Rightarrow> listing response" where
  "list_bugs st q =
     (if validate_list q \<noteq> [] then BadRequest400 (validate_list q)
      else
        (let page = or_default (parseInt (q_page q)) 1;
             limit = or_default (parseInt (q_limit q)) 10;
             skip = num_times (num_minus page (Num 1)) limit;
             f = list_filter q
         in case (find_sorted st f, countDocuments st f) of
              (Inr found, Inr cnt) \<Rightarrow>
                Ok200 \<lparr>data_bugs = limit_docs limit (skip_docs skip found),
                       data_pagination = paginate cnt page limit\<rparr>
            | _ \<Rightarrow> ServerError500))"

text \<open>
  GET /api/bugs/export (lines 105-184): no validator chain; \<open>export_rows\<close> is
  \<open>csvRows\<close> before it is joined.
\<close>

definition export_rows :: "store \<Rightarrow> (int \<Rightarrow> string) \<Rightarrow> query \<Rightarrow> store_error + string list" where
  "export_rows st toISOString q =
     (case find_sorted st (export_filter q) of
        Inl e \<Rightarrow> Inl e
      | Inr found \<Rightarrow> Inr (map (csv_row (users st) toISOString) found))"

definition export_bugs :: "store \<Rightarrow> (int \<Rightarrow> string) \<Rightarrow> query \<Rightarrow> string response" where
  "export_bugs st toISOString q =
     (case export_rows st toISOString q of
        Inl e \<Rightarrow> ServerError500
      | Inr csvRows \<Rightarrow> Ok200 (csvHeader @ join [CHR 0x0A] csvRows))"

section \<open>A regular-expression engine for literal patterns with dots\<close>

text \<open>
  The engine of the store implements Perl-compatible regular expressions. The
  fragment made of ordinary characters and the dot is modelled here: with option
  \<open>i\<close> an ordinary character matches itself up to the case of ASCII letters, the dot
  matches any character but a line feed, and the pattern is searched for at every
  position of the text. \<open>literal_dot_regex\<close> rejects every pattern with another
  metacharacter; it stands for the engine on the patterns of the fragment only.
\<close>

datatype rx_item = Lit char | AnyChar

definition rx_meta :: "char \<Rightarrow> bool" where
  "rx_meta c \<longleftrightarrow>
     c \<in> set [CHR 0x5C, CHR 0x5E, CHR 0x24, CHR 0x2E, CHR 0x5B, CHR 0x5D, CHR 0x7C,
              CHR 0x28, CHR 0x29, CHR 0x3F, CHR 0x2A, CHR 0x2B, CHR 0x7B, CHR 0x7D]"

fun item_matches :: "rx_item \<Rightarrow> char \<Rightarrow> bool" where
  "item_matches (Lit a) c = (toLowerCase_char a = toLowerCase_char c)"
| "item_matches AnyChar c = (c \<noteq> CHR 0x0A)"

fun matches_here :: "rx_item list \<Rightarrow> string \<Rightarrow> bool" where
  "matches_here [] text = True"
| "matches_here (i # items) [] = False"
| "matches_here (i # items) (c # cs) = (item_matches i c \<and> matches_here items cs)"

fun rx_search :: "rx_item list \<Rightarrow> string \<Rightarrow> bool" where
  "rx_search items [] = matches_here items []"
| "rx_search items (c # cs) = (matches_here items (c # cs) \<or> rx_search items cs)"

definition parse_literal_dot :: "string \<Rightarrow> rx_item list option" where
  "parse_literal_dot p =
     (if list_ex (\<lambda>c. rx_meta c \<and> c \<noteq> CHR 0x2E) p then None
      else Some (map (\<lambda>c. if c = CHR 0x2E then AnyChar else Lit c) p))"

definition literal_dot_regex :: "string \<Rightarrow> (string \<Rightarrow> bool) option" where
  "literal_dot_regex p = map_option rx_search (parse_literal_dot p)"

text \<open>
  Substring containment ignoring case, in the words of the specification:
  \<open>includes_ci s t\<close> holds when \<open>s\<close> occurs in \<open>t\<close> as a contiguous run of characters,
  both taken in lower case.
\<close>

fun starts_with :: "string \<Rightarrow> string \<Rightarrow> bool" where
  "starts_with [] t = True"
| "starts_with (a # s) [] = False"
| "starts_with (a # s) (c # t) = (a = c \<and> starts_with s t)"

fun includes_str :: "string \<Rightarrow> string \<Rightarrow> bool" where
  "includes_str s [] = starts_with s []"
| "includes_str s (c # t) = (starts_with s (c # t) \<or> includes_str s t)"

definition includes_ci :: "string \<Rightarrow> string \<Rightarrow> bool" where
  "includes_ci s t \<longleftrightarrow> includes_str (map toLowerCase_char s) (map toLowerCase_char t)"

section \<open>Dates\<close>

text \<open>
  A \<open>Date\<close> is a time value in milliseconds since the epoch. \<open>Day\<close>, \<open>TimeWithinDay\<close>,
  \<open>MakeDay\<close>, \<open>MakeDate\<close>, \<open>LocalTime\<close> and \<open>UTC\<close> are the abstract operations of the
  language standard, on the proleptic Gregorian calendar. The methods \<open>getDate\<close>,
  \<open>getMonth\<close>, \<open>setDate\<close> and \<open>setMonth\<close> work in the local time of the server: the
  time zone is a parameter, given by the offset of local time at a UTC time value
  (\<open>LocalTZA(t, true)\<close>) and at a local time value (\<open>LocalTZA(t, false)\<close>). Months count
  from 0 in \<open>getMonth\<close> and \<open>setMonth\<close>, from 1 in the aggregation operator \<open>$month\<close>,
  which works in UTC. (Time values stay far inside the range of \<open>Date\<close>, where
  \<open>TimeClip\<close> changes nothing.)
\<close>

record timezone =
  offset_at_utc :: "int \<Rightarrow> int"
  offset_at_local :: "int \<Rightarrow> int"

definition msPerDay :: int where
  "msPerDay = 86400000"

definition Day :: "int \<Rightarrow> int" where
  "Day t = t div msPerDay"

definition TimeWithinDay :: "int \<Rightarrow> int" where
  "TimeWithinDay t = t mod msPerDay"

definition LocalTime :: "timezone \<Rightarrow> int \<Rightarrow> int" where
  "LocalTime tz t = t + offset_at_utc tz t"

definition UTC :: "timezone \<Rightarrow> int \<Rightarrow> int" where
  "UTC tz t = t - offset_at_local tz t"

text \<open>Year, month (1 to 12) and day of the month of a day number, and back.\<close>

definition civil_from_days :: "int \<Rightarrow> int \<times> int \<times> int" where
  "civil_from_days z0 =
     (let z = z0 + 719468;
          era = z div 146097;
          doe = z - era * 146097;
          yoe = (doe - doe div 1460 + doe div 36524 - doe div 146096) div 365;
          doy = doe - (365 * yoe + yoe div 4 - yoe div 100);
          mp = (5 * doy + 2) div 153;
          d = doy - (153 * mp + 2) div 5 + 1;
          m = (if mp < 10 then mp + 3 else mp - 9);
          y = yoe + era * 400
      in (if m \<le> 2 then y + 1 else y, m, d))"

definition days_from_civil :: "int \<Rightarrow> int \<Rightarrow> int \<Rightarrow> int" where
  "days_from_civil y0 m d =
     (let y = (if m \<le> 2 then y0 - 1 else y0);
          era = y div 400;
          yoe = y - era * 400;
          doy = (153 * (if m > 2 then m - 3 else m + 9) + 2) div 5 + d - 1;
          doe = yoe * 365 + yoe div 4 - yoe div 100 + doy
      in era * 146097 + doe - 719468)"

definition YearFromTime :: "int \<Rightarrow> int" where
  "YearFromTime t = fst (civil_from_days (Day t))"

definition MonthFromTime :: "int \<Rightarrow> int" where
  "MonthFromTime t = fst (snd (civil_from_days (Day t))) - 1"

definition DateFromTime :: "int \<Rightarrow> int" where
  "DateFromTime t = snd (snd (civil_from_days (Day t)))"

definition MakeDay :: "int \<Rightarrow> int \<Rightarrow> int \<Rightarrow> int" where
  "MakeDay year month date =
     days_from_civil (year + month div 12) (month mod 12 + 1) 1 + date - 1"

definition MakeDate :: "int \<Rightarrow> int \<Rightarrow> int" where
  "MakeDate day time = day * msPerDay + time"

definition getMonth :: "timezone \<Rightarrow> int \<Rightarrow> int" where
  "getMonth tz t = MonthFromTime (LocalTime tz t)"

definition getDate :: "timezone \<Rightarrow> int \<Rightarrow> int" where
  "getDate tz t = DateFromTime (LocalTime tz t)"

definition setDate :: "timezone \<Rightarrow> int \<Rightarrow> int \<Rightarrow> int" where
  "setDate tz t date =
     (let l = LocalTime tz t
      in UTC tz (MakeDate (MakeDay (YearFromTime l) (MonthFromTime l) date) (TimeWithinDay l)))"

definition setMonth :: "timezone \<Rightarrow> int \<Rightarrow> int \<Rightarrow> int" where
  "setMonth tz t month =
     (let l = LocalTime tz t
      in UTC tz (MakeDate (MakeDay (YearFromTime l) month (DateFromTime l)) (TimeWithinDay l)))"

text \<open>
  The system clock: \<open>readings c k\<close> is the value the \<open>k\<close>-th read returns, \<open>reads c\<close>
  counts the reads made so far. \<open>new Date()\<close> reads the clock.
\<close>

record clock =
  readings :: "nat \<Rightarrow> int"
  reads :: nat

definition new_Date :: "clock \<Rightarrow> int \<times> clock" where
  "new_Date c = (readings c (reads c), c\<lparr>reads := Suc (reads c)\<rparr>)"

section \<open>Analytics (GET /api/bugs/analytics, lines 189-332)\<close>

text \<open>
  \<open>$group\<close> with \<open>count: {$sum: 1}\<close>: one pass over the documents, each adding one to
  the group of its key. Groups are listed in the order in which their keys first occur.
\<close>

fun add_to_group :: "'k \<Rightarrow> ('k \<times> nat) list \<Rightarrow> ('k \<times> nat) list" where
  "add_to_group k [] = [(k, 1)]"
| "add_to_group k ((k', n) # gs) =
     (if k = k' then (k', n + 1) # gs else (k', n) # add_to_group k gs)"

definition group_count :: "'k list \<Rightarrow> ('k \<times> nat) list" where
  "group_count ks = foldl (\<lambda>gs k. add_to_group k gs) [] ks"

definition count_where :: "store \<Rightarrow> (bug \<Rightarrow> bool) \<Rightarrow> nat" where
  "count_where st p = length (filter p (bugs st))"

text \<open>Decimal printing of integers (\<open>String(n)\<close> and template literals), and \<open>padStart(2, '0')\<close>.\<close>

definition digit_char :: "nat \<Rightarrow> char" where
  "digit_char n = ''0123456789'' ! n"

function show_nat :: "nat \<Rightarrow> string" where
  "show_nat n = (if n < 10 then [digit_char n] else show_nat (n div 10) @ [digit_char (n mod 10)])"
  by pat_completeness auto
termination
  by (relation "measure id") auto

declare show_nat.simps [simp del]

definition show_int :: "int \<Rightarrow> string" where
  "show_int i = (if i < 0 then CHR ''-'' # show_nat (nat (- i)) else show_nat (nat i))"

definition padStart2 :: "string \<Rightarrow> string" where
  "padStart2 s = replicate (2 - length s) (CHR ''0'') @ s"

text \<open>The aggregation operators \<open>$year\<close> and \<open>$month\<close>.\<close>

definition year_of :: "int \<Rightarrow> int" where
  "year_of t = fst (civil_from_days (Day t))"

definition month_of :: "int \<Rightarrow> int" where
  "month_of t = fst (snd (civil_from_days (Day t)))"

text \<open>
  The assignee pipeline: \<open>$match\<close> on a non-null assignee, \<open>$lookup\<close> and \<open>$unwind\<close>
  (which drops a document whose assignee is no user), \<open>$group\<close> by assignee with the
  name of the joined user, \<open>$sort\<close> by descending count, \<open>$limit: 5\<close>. Groups with
  equal counts stay in the order of \<open>$group\<close>.
\<close>

definition group_name :: "(string \<Rightarrow> user option) \<Rightarrow> string \<Rightarrow> string" where
  "group_name lookup i =
     (case lookup i of Some u \<Rightarrow> firstName u @ '' '' @ lastName u | None \<Rightarrow> [])"

definition assignee_stats :: "store \<Rightarrow> (string \<times> nat) list" where
  "assignee_stats st =
     (let joined = List.map_filter
            (\<lambda>b. case assignedTo b of
                    None \<Rightarrow> None
                  | Some i \<Rightarrow> (case users st i of None \<Rightarrow> None | Some u \<Rightarrow> Some i))
            (bugs st);
          named = map (\<lambda>(i, n). (group_name (users st) i, n)) (group_count joined)
      in take 5 (sort_key (\<lambda>(name, n). - int n) named))"

text \<open>
  The monthly pipeline: \<open>$match\<close> on the creation time, \<open>$group\<close> by year and month,
  \<open>$sort\<close> by year, then month (two stable passes, the minor key first), and the
  label \<open>year-month\<close> built when the response is assembled.
\<close>

definition monthly_trend :: "store \<Rightarrow> int \<Rightarrow> (string \<times> nat) list" where
  "monthly_trend st sixMonthsAgo =
     (let matched = filter (\<lambda>b. createdAt b \<ge> sixMonthsAgo) (bugs st);
          groups = group_count (map (\<lambda>b. (year_of (createdAt b), month_of (createdAt b))) matched);
          sorted = sort_key (\<lambda>((y, m), n). y) (sort_key (\<lambda>((y, m), n). m) groups)
      in map (\<lambda>((y, m), n). (show_int y @ ''-'' @ padStart2 (show_int m), n)) sorted)"

record analytics_report =
  totalBugs :: nat
  openBugs :: nat
  inProgressBugs :: nat
  resolvedBugs :: nat
  closedBugs :: nat
  highPriorityBugs :: nat
  criticalBugs :: nat
  recentBugs :: nat
  statusDistribution :: "(status \<times> nat) list"
  priorityDistribution :: "(priority \<times> nat) list"
  assigneeStats :: "(string \<times> nat) list"
  monthlyTrend :: "(string \<times> nat) list"

text \<open>
  The handler, in the order of its statements. The store is read-only here; the
  clock is read by each \<open>new Date()\<close>; \<open>tz\<close> is the time zone of the server.
\<close>

definition analytics :: "timezone \<Rightarrow> store \<Rightarrow> clock \<Rightarrow> analytics_report \<times> clock" where
  "analytics tz st c0 =
     (let n_total = length (bugs st);
          n_open = count_where st (\<lambda>b. status b = Open);
          n_inProgress = count_where st (\<lambda>b. status b = InProgress);
          n_resolved = count_where st (\<lambda>b. status b = Resolved);
          n_closed = count_where st (\<lambda>b. status b = Closed);
          n_high = count_where st (\<lambda>b. priority b = High);
          n_critical = count_where st (\<lambda>b. priority b = Critical);
          statusStats = group_count (map status (bugs st));
          priorityStats = group_count (map priority (bugs st));
          (d1, c1) = new_Date c0;
          last7Days = setDate tz d1 (getDate tz d1 - 7);
          n_recent = count_where st (\<lambda>b. createdAt b \<ge> last7Days);
          assignees = assignee_stats st;
          (d2, c2) = new_Date c1;
          sixMonthsAgo = setMonth tz d2 (getMonth tz d2 - 6);
          trend = monthly_trend st sixMonthsAgo
      in (\<lparr>totalBugs = n_total, openBugs = n_open, inProgressBugs = n_inProgress,
           resolvedBugs = n_resolved, closedBugs = n_closed, highPriorityBugs = n_high,
           criticalBugs = n_critical, recentBugs = n_recent,
           statusDistribution = statusStats, priorityDistribution = priorityStats,
           assigneeStats = assignees, monthlyTrend = trend\<rparr>, c2))"

text \<open>
  The report in the words of the specification: \<open>now\<close> is captured once and both the
  recent window and the monthly window are derived from it.
\<close>

definition analytics_single_now :: "timezone \<Rightarrow> store \<Rightarrow> int \<Rightarrow> analytics_report" where
  "analytics_single_now tz st now =
     \<lparr>totalBugs = length (bugs st),
      openBugs = count_where st (\<lambda>b. status b = Open),
      inProgressBugs = count_where st (\<lambda>b. status b = InProgress),
      resolvedBugs = count_where st (\<lambda>b. status b = Resolved),
      closedBugs = count_where st (\<lambda>b. status b = Closed),
      highPriorityBugs = count_where st (\<lambda>b. priority b = High),
      criticalBugs = count_where st (\<lambda>b. priority b = Critical),
      recentBugs = count_where st (\<lambda>b. createdAt b \<ge> setDate tz now (getDate tz now - 7)),
      statusDistribution = group_count (map status (bugs st)),
      priorityDistribution = group_count (map priority (bugs st)),
      assigneeStats = assignee_stats st,
      monthlyTrend = monthly_trend st (setMonth tz now (getMonth tz now - 6))\<rparr>"

section \<open>Write paths\<close>

text \<open>
  The \<open>pre('save')\<close> hook of the Bug schema (models/Bug.ts, lines 132-142).
  \<open>status_modified\<close> is \<open>this.isModified('status')\<close>, \<open>now\<close> the value of \<open>new Date()\<close>.
  The hook runs when a document is saved, as when POST /api/bugs calls \<open>bug.save()\<close>.
\<close>

definition pre_save :: "int \<Rightarrow> bool \<Rightarrow> bug \<Rightarrow> bug" where
  "pre_save now status_modified b =
     (if status_modified then
        (if status b = Closed \<and> resolvedAt b = None then b\<lparr>resolvedAt := Some now\<rparr>
         else if status b \<noteq> Closed then b\<lparr>resolvedAt := None\<rparr>
         else b)
      else b)"

text \<open>
  PUT /api/bugs/:id (lines 445-535). The keys of the body that the bug record of
  this model carries; each is absent or present, and \<open>assignedTo\<close> may be \<open>null\<close>.
\<close>

record update_body =
  u_title :: "string option"
  u_description :: "string option"
  u_priority :: "string option"
  u_status :: "string option"
  u_type :: "string option"
  u_assignedTo :: "field_value option"

definition trim :: "string \<Rightarrow> string" where
  "trim s = rev (dropWhile js_whitespace (rev (dropWhile js_whitespace s)))"

definition isLength :: "nat \<Rightarrow> nat \<Rightarrow> string \<Rightarrow> bool" where
  "isLength lo hi s \<longleftrightarrow> lo \<le> length s \<and> length s \<le> hi"

definition validate_update :: "update_body \<Rightarrow> string list" where
  "validate_update u =
     check ''title'' (map_option trim (u_title u)) (isLength 1 200)
     @ check ''description'' (map_option trim (u_description u)) (isLength 1 5000)
     @ check ''priority'' (u_priority u) (\<lambda>s. s \<in> set [''low'', ''medium'', ''high'', ''critical''])
     @ check ''status'' (u_status u)
         (\<lambda>s. s \<in> set [''open'', ''in-progress'', ''resolved'', ''closed'', ''reopened''])
     @ check ''type'' (u_type u) (\<lambda>s. s \<in> set [''bug'', ''feature'', ''improvement'', ''task''])
     @ (case u_assignedTo u of
          None \<Rightarrow> []
        | Some Null \<Rightarrow> []
        | Some (Str s) \<Rightarrow> if s = [] \<or> castObjectId s \<noteq> None then [] else [''assignedTo''])"

definition parse_status :: "string \<Rightarrow> status option" where
  "parse_status s = find (\<lambda>x. status_str x = s) [Open, InProgress, Resolved, Closed, Reopened]"

definition parse_priority :: "string \<Rightarrow> priority option" where
  "parse_priority s = find (\<lambda>x. priority_str x = s) [Low, Medium, High, Critical]"

definition parse_type :: "string \<Rightarrow> bug_type option" where
  "parse_type s = find (\<lambda>x. type_str x = s) [Bug, Feature, Improvement, Task]"

definition set_field :: "'a option \<Rightarrow> 'a \<Rightarrow> 'a" where
  "set_field v old = (case v of None \<Rightarrow> old | Some x \<Rightarrow> x)"

text \<open>
  \<open>findByIdAndUpdate(id, updateData, {new: true, runValidators: true})\<close> sets the
  paths present in \<open>updateData\<close> and the update timestamp. It is a query, not a save
  of a document: the \<open>pre('save')\<close> hook is not run. (After the validator chain
  has passed, every enumeration value parses and every identifier casts.)
\<close>

definition apply_update :: "int \<Rightarrow> update_body \<Rightarrow> bug \<Rightarrow> bug" where
  "apply_update now u b =
     b\<lparr>title := set_field (map_option trim (u_title u)) (title b),
       description := set_field (map_option trim (u_description u)) (description b),
       priority := set_field (Option.bind (u_priority u) parse_priority) (priority b),
       status := set_field (Option.bind (u_status u) parse_status) (status b),
       bug_type := set_field (Option.bind (u_type u) parse_type) (bug_type b),
       assignedTo :=
         (case u_assignedTo u of
            None \<Rightarrow> assignedTo b
          | Some Null \<Rightarrow> None
          | Some (Str s) \<Rightarrow> if s = [] then None else castObjectId s),
       updatedAt := now\<rparr>"

fun replace_first :: "(bug \<Rightarrow> bool) \<Rightarrow> bug \<Rightarrow> bug list \<Rightarrow> bug list" where
  "replace_first p b' [] = []"
| "replace_first p b' (b # bs) = (if p b then b' # bs else b # replace_first p b' bs)"

definition assigned_user_missing :: "store \<Rightarrow> update_body \<Rightarrow> bool" where
  "assigned_user_missing st u \<longleftrightarrow>
     (case u_assignedTo u of
        Some (Str s) \<Rightarrow> s \<noteq> [] \<and> Option.bind (castObjectId s) (users st) = None
      | _ \<Rightarrow> False)"

definition update_bug :: "store \<Rightarrow> int \<Rightarrow> string \<Rightarrow> update_body \<Rightarrow> bug response \<times> store" where
  "update_bug st now param_id u =
     (if validate_update u \<noteq> [] then (BadRequest400 (validate_update u), st)
      else
        (case castObjectId param_id of
           None \<Rightarrow> (BadRequest400 [''Invalid bug ID''], st)
         | Some i \<Rightarrow>
             (case find (\<lambda>b. bug_id b = i) (bugs st) of
                None \<Rightarrow> (NotFound404, st)
              | Some b \<Rightarrow>
                  if assigned_user_missing st u
                  then (BadRequest400 [''Assigned user not found''], st)
                  else
                    (let updatedBug = apply_update now u b
                     in (Ok200 updatedBug,
                         st\<lparr>bugs := replace_first (\<lambda>x. bug_id x = i) updatedBug (bugs st)\<rparr>)))))"

text \<open>
  The invariant of the specification: a resolved timestamp is present only when the
  status is closed, and a closed bug has one.
\<close>

definition resolvedAt_consistent :: "bug \<Rightarrow> bool" where
  "resolvedAt_consistent b \<longleftrightarrow> (status b = Closed) = (resolvedAt b \<noteq> None)"

section \<open>Example data\<close>

definition ada_id :: string where
  "ada_id = ''64b000000000000000000001''"

definition bob_id :: string where
  "bob_id = ''64b000000000000000000002''"

definition example_users :: "string \<Rightarrow> user option" where
  "example_users =
     map_of [(ada_id, \<lparr>firstName = ''Ada'', lastName = ''Lovelace''\<rparr>),
             (bob_id, \<lparr>firstName = ''Bob'', lastName = ''Stone''\<rparr>)]"

definition example_iso :: "int \<Rightarrow> string" where
  "example_iso t = ''2024-03-15T00:00:00.000Z''"

text \<open>An unassigned open bug whose description holds a comma and double quotes.\<close>

definition bug1 :: bug where
  "bug1 =
     \<lparr>bug_id = ''64b0000000000000000000a1'', title = ''abc'',
      description = ''He said, '' @ [CHR 0x22] @ ''fix it'' @ [CHR 0x22],
      priority = High, status = Open, bug_type = Bug, assignedTo = None,
      reporter = ada_id, resolvedAt = None,
      createdAt = 1710460800000, updatedAt = 1710460800000\<rparr>"

text \<open>A closed bug assigned to Bob.\<close>

definition bug2 :: bug where
  "bug2 =
     \<lparr>bug_id = ''64b0000000000000000000a2'', title = ''LOGIN page broken'',
      description = ''cannot sign in'',
      priority = Critical, status = Closed, bug_type = Bug, assignedTo = Some bob_id,
      reporter = ada_id, resolvedAt = Some 1710547200000,
      createdAt = 1710464400000, updatedAt = 1710547200000\<rparr>"

definition example_store :: store where
  "example_store = \<lparr>bugs = [bug1, bug2], users = example_users, regex_i = literal_dot_regex\<rparr>"

definition no_query :: query where
  "no_query =
     \<lparr>q_page = None, q_limit = None, q_status = None, q_priority = None, q_type = None,
      q_assignedTo = None, q_reporter = None, q_unassigned = None, q_search = None\<rparr>"

definition no_update :: update_body where
  "no_update =
     \<lparr>u_title = None, u_description = None, u_priority = None, u_status = None,
      u_type = None, u_assignedTo = None\<rparr>"

text \<open>Queries over the example store.\<close>

definition open_query :: query where
  "open_query = no_query\<lparr>q_status := Some ''open''\<rparr>"

definition unassigned_query :: query where
  "unassigned_query = no_query\<lparr>q_unassigned := Some ''true'', q_assignedTo := Some bob_id\<rparr>"

definition empty_store :: store where
  "empty_store = \<lparr>bugs = [], users = example_users, regex_i = literal_dot_regex\<rparr>"

definition first_page_query :: query where
  "first_page_query = no_query\<lparr>q_page := Some ''1'', q_limit := Some ''10''\<rparr>"

definition second_page_query :: query where
  "second_page_query = no_query\<lparr>q_page := Some ''2'', q_limit := Some ''1''\<rparr>"

definition bad_assignee_query :: query where
  "bad_assignee_query = no_query\<lparr>q_assignedTo := Some ''abc''\<rparr>"

definition dot_query :: query where
  "dot_query = no_query\<lparr>q_search := Some ''a.c''\<rparr>"

text \<open>
  A record created on 2024-09-08, seven days before 2024-09-15T00:00:00Z (time value
  1726358400000); \<open>bug1\<close> was created six months before that instant.
\<close>

definition bug3 :: bug where
  "bug3 =
     \<lparr>bug_id = ''64b0000000000000000000a3'', title = ''Export fails'',
      description = ''timeout'',
      priority = Low, status = Open, bug_type = Task, assignedTo = Some ada_id,
      reporter = bob_id, resolvedAt = None,
      createdAt = 1725753600000, updatedAt = 1725753600000\<rparr>"

definition clock_store :: store where
  "clock_store = \<lparr>bugs = [bug1, bug3], users = example_users, regex_i = literal_dot_regex\<rparr>"

text \<open>A clock that advances by one millisecond between reads, and one that stands still.\<close>

definition ticking_clock :: clock where
  "ticking_clock = \<lparr>readings = (\<lambda>k. 1726358400000 + int k), reads = 0\<rparr>"

definition frozen_clock :: clock where
  "frozen_clock = \<lparr>readings = (\<lambda>k. 1726358400000), reads = 0\<rparr>"

definition close_update :: update_body where
  "close_update = no_update\<lparr>u_status := Some ''closed''\<rparr>"

definition reopen_update :: update_body where
  "reopen_update = no_update\<lparr>u_status := Some ''reopened''\<rparr>"

definition full_query :: query where
  "full_query =
     no_query\<lparr>q_status := Some ''closed'', q_priority := Some ''critical'', q_type := Some ''bug'',
               q_assignedTo := Some bob_id, q_reporter := Some ada_id\<rparr>"

definition paren_query :: query where
  "paren_query = no_query\<lparr>q_search := Some ''(''\<rparr>"

text \<open>A server whose local time is UTC.\<close>

definition utc_zone :: timezone where
  "utc_zone = \<lparr>offset_at_utc = (\<lambda>t. 0), offset_at_local = (\<lambda>t. 0)\<rparr>"

text \<open>Queries with a malformed identifier, a prefixed identifier and a page beyond \<open>2^53\<close>.\<close>

definition unassigned_abc_query :: query where
  "unassigned_abc_query = no_query\<lparr>q_unassigned := Some ''true'', q_assignedTo := Some ''abc''\<rparr>"

definition prefixed_id :: string where
  "prefixed_id = ''0x64b0000000000000000002''"

definition big_page_query :: query where
  "big_page_query = no_query\<lparr>q_page := Some ''9007199254740993'', q_limit := Some ''10''\<rparr>"

section \<open>Properties of the listing and export handlers\<close>

lemma filters_equal: "list_filter q = export_filter q"
  by (simp add: list_filter_def export_filter_def)

lemma count_of_found:
  "find_sorted st f = Inr found \<Longrightarrow> countDocuments st f = Inr (length found)"
  by (auto simp: find_sorted_def countDocuments_def split: sum.splits)

lemma count_fails_with_find:
  "find_sorted st f = Inl e \<Longrightarrow> countDocuments st f = Inl e"
  by (auto simp: find_sorted_def countDocuments_def split: sum.splits)

lemma list_bugs_found:
  assumes "validate_list q = []" and "find_sorted st (list_filter q) = Inr found"
  shows "list_bugs st q =
     Ok200 \<lparr>data_bugs =
              limit_docs (or_default (parseInt (q_limit q)) 10)
                (skip_docs (num_times (num_minus (or_default (parseInt (q_page q)) 1) (Num 1))
                                      (or_default (parseInt (q_limit q)) 10)) found),
            data_pagination = paginate (length found) (or_default (parseInt (q_page q)) 1)
                 (or_default (parseInt (q_limit q)) 10)\<rparr>"
  using assms by (simp add: list_bugs_def Let_def count_of_found)

lemma list_bugs_store_error:
  assumes "validate_list q = []" and "find_sorted st (list_filter q) = Inl e"
  shows "list_bugs st q = ServerError500"
  using assms by (simp add: list_bugs_def Let_def count_fails_with_find)

lemma list_bugs_rejects:
  "validate_list q \<noteq> [] \<Longrightarrow> list_bugs st q = BadRequest400 (validate_list q)"
  by (simp add: list_bugs_def)

lemma pages_div: "\<lceil>real n / real_of_int s\<rceil> = - (- int n div s)"
  using ceiling_divide_eq_div [of "int n" s] by simp

lemma paginate_div:
  "s \<noteq> 0 \<Longrightarrow> paginate n p (Num s) =
     \<lparr>currentPage = p, totalPages = Num (- (- int n div s)), totalCount = n,
      hasNext = num_less p (Num (- (- int n div s))), hasPrev = num_less (Num 1) p\<rparr>"
  by (simp add: paginate_def ceil_quotient_def Let_def pages_div)

lemma totalCount_paginate: "totalCount (paginate n p s) = n"
  by (simp add: paginate_def Let_def)

lemma list_filter_unassigned:
  assumes "q_unassigned q = Some ''true''"
  shows "list_filter q = list_filter (q\<lparr>q_assignedTo := a\<rparr>)"
  using assms by (simp add: list_filter_def Let_def)

lemma validate_without_assignedTo:
  "validate_list q = [] \<Longrightarrow> validate_list (q\<lparr>q_assignedTo := None\<rparr>) = []"
  by (simp add: validate_list_def check_def)

lemma validate_list_assignedTo:
  "q_assignedTo q = Some v \<Longrightarrow> \<not> isMongoId v \<Longrightarrow> ''assignedTo'' \<in> set (validate_list q)"
  by (simp add: validate_list_def check_def)

lemma list_bugs_cong:
  assumes "validate_list q = []" "validate_list q' = []" "list_filter q = list_filter q'"
    "q_page q = q_page q'" "q_limit q = q_limit q'"
  shows "list_bugs st q = list_bugs st q'"
  using assms by (simp add: list_bugs_def)

lemma compile_filter_Null:
  assumes "f_assignedTo f = Some Null" and "compile_filter rx f = Inr p"
  shows "p b \<Longrightarrow> assignedTo b = None"
  using assms
  by (auto simp: compile_filter_def cast_assignedTo_def split: sum.splits)

lemma find_sorted_set:
  "find_sorted st f = Inr found \<Longrightarrow> compile_filter (regex_i st) f = Inr p \<Longrightarrow>
     set found = {b \<in> set (bugs st). p b}"
  by (auto simp: find_sorted_def)

lemma found_subset: "find_sorted st f = Inr found \<Longrightarrow> set found \<subseteq> set (bugs st)"
  by (auto simp: find_sorted_def split: sum.splits)

lemma only_unassigned_filter:
  assumes "q_unassigned q = Some ''true''"
    and "\<not> truthy (q_status q)" "\<not> truthy (q_priority q)" "\<not> truthy (q_type q)"
    and "\<not> truthy (q_reporter q)" "\<not> truthy (q_search q)"
  shows "find_sorted st (list_filter q) =
           Inr (sort_key (\<lambda>b. - createdAt b) (filter (\<lambda>b. assignedTo b = None) (bugs st)))"
  using assms
  by (simp add: list_filter_def Let_def empty_filter_def find_sorted_def compile_filter_def
      cast_assignedTo_def cast_reporter_def compile_or_def eq_str_def)

lemma skip_docs_subset: "set (skip_docs x xs) \<subseteq> set xs"
  using set_drop_subset [of _ xs] by (cases x) (auto simp: skip_docs_def)

lemma limit_docs_subset: "set (limit_docs x xs) \<subseteq> set xs"
  using set_take_subset [of _ xs] by (cases x) (auto simp: limit_docs_def)

lemma window_subset: "set (limit_docs x (skip_docs y xs)) \<subseteq> set xs"
  using limit_docs_subset [of x "skip_docs y xs"] skip_docs_subset [of y xs] by blast

lemma window_Nil: "limit_docs x (skip_docs y []) = []"
  by (cases x; cases y) (simp_all add: limit_docs_def skip_docs_def)

text \<open>
  Claim C1, as the code has it. When \<open>unassigned\<close> is the string \<open>true\<close>, the assignee
  constraint of the filter is "assignee is null" whatever \<open>assignedTo\<close> was supplied.
  The validator chain runs first: a query it refuses, as one whose \<open>assignedTo\<close> fails
  the identifier validator, is answered with the client-input error. For a query
  that passes the chain, the response is that of the same query without
  \<open>assignedTo\<close>, every record returned has no assignee, and when no other constraint
  is supplied the listing is the window over exactly the records without assignee,
  counted in full.
\<close>

theorem unassigned_overrides_assignedTo:
  assumes "q_unassigned q = Some ''true''"
  shows "f_assignedTo (list_filter q) = Some Null
     \<and> list_filter q = list_filter (q\<lparr>q_assignedTo := None\<rparr>)
     \<and> (validate_list q \<noteq> [] \<longrightarrow> list_bugs st q = BadRequest400 (validate_list q))
     \<and> (\<forall>v. q_assignedTo q = Some v \<and> \<not> isMongoId v \<longrightarrow>
            ''assignedTo'' \<in> set (validate_list q)
            \<and> list_bugs st q = BadRequest400 (validate_list q))
     \<and> (validate_list q = [] \<longrightarrow>
           list_bugs st q = list_bugs st (q\<lparr>q_assignedTo := None\<rparr>))
     \<and> (\<forall>l. list_bugs st q = Ok200 l \<longrightarrow> (\<forall>b \<in> set (data_bugs l). assignedTo b = None))
     \<and> (validate_list q = [] \<and> \<not> truthy (q_status q) \<and> \<not> truthy (q_priority q)
          \<and> \<not> truthy (q_type q) \<and> \<not> truthy (q_reporter q) \<and> \<not> truthy (q_search q) \<longrightarrow>
         list_bugs st q =
           Ok200 \<lparr>data_bugs =
                    limit_docs (or_default (parseInt (q_limit q)) 10)
                      (skip_docs (num_times (num_minus (or_default (parseInt (q_page q)) 1) (Num 1))
                                            (or_default (parseInt (q_limit q)) 10))
                         (sort_key (\<lambda>b. - createdAt b)
                            (filter (\<lambda>b. assignedTo b = None) (bugs st)))),
                  data_pagination =
                    paginate (length (filter (\<lambda>b. assignedTo b = None) (bugs st)))
                      (or_default (parseInt (q_page q)) 1)
                      (or_default (parseInt (q_limit q)) 10)\<rparr>)"
proof (intro conjI allI impI ballI)
  show n: "f_assignedTo (list_filter q) = Some Null"
    using assms by (simp add: list_filter_def Let_def)
  show "list_filter q = list_filter (q\<lparr>q_assignedTo := None\<rparr>)"
    by (rule list_filter_unassigned [OF assms])
  show "list_bugs st q = BadRequest400 (validate_list q)" if "validate_list q \<noteq> []"
    using that by (rule list_bugs_rejects)
  {
    fix v
    assume a: "q_assignedTo q = Some v \<and> \<not> isMongoId v"
    then show m: "''assignedTo'' \<in> set (validate_list q)"
      by (simp add: validate_list_assignedTo)
    then have "validate_list q \<noteq> []" by auto
    then show "list_bugs st q = BadRequest400 (validate_list q)"
      by (rule list_bugs_rejects)
  }
  show "list_bugs st q = list_bugs st (q\<lparr>q_assignedTo := None\<rparr>)" if "validate_list q = []"
    by (rule list_bugs_cong)
       (simp_all add: that validate_without_assignedTo list_filter_unassigned [OF assms, of None])
  {
    fix l b
    assume ok: "list_bugs st q = Ok200 l" and b: "b \<in> set (data_bugs l)"
    have valid: "validate_list q = []"
    proof (rule ccontr)
      assume "validate_list q \<noteq> []"
      from list_bugs_rejects [OF this] ok show False by simp
    qed
    obtain found where f: "find_sorted st (list_filter q) = Inr found"
    proof (cases "find_sorted st (list_filter q)")
      case (Inl e)
      with list_bugs_store_error [OF valid] ok show ?thesis by simp
    next
      case (Inr found)
      then show ?thesis by (rule that)
    qed
    from list_bugs_found [OF valid f] ok
    have "\<exists>x y. data_bugs l = limit_docs x (skip_docs y found)"
      by auto
    then obtain x y where "data_bugs l = limit_docs x (skip_docs y found)"
      by blast
    then have "set (data_bugs l) \<subseteq> set found"
      by (simp add: window_subset)
    with b have d: "b \<in> set found" by auto
    from f obtain p where p: "compile_filter (regex_i st) (list_filter q) = Inr p"
      by (auto simp: find_sorted_def split: sum.splits)
    from find_sorted_set [OF f p] d have "p b" by auto
    with compile_filter_Null [OF n p] show "assignedTo b = None" by simp
  }
  {
    assume a: "validate_list q = [] \<and> \<not> truthy (q_status q) \<and> \<not> truthy (q_priority q)
          \<and> \<not> truthy (q_type q) \<and> \<not> truthy (q_reporter q) \<and> \<not> truthy (q_search q)"
    then have valid: "validate_list q = []" by simp
    from a have "find_sorted st (list_filter q) =
           Inr (sort_key (\<lambda>b. - createdAt b) (filter (\<lambda>b. assignedTo b = None) (bugs st)))"
      using only_unassigned_filter [OF assms] by simp
    from list_bugs_found [OF valid this]
    show "list_bugs st q =
           Ok200 \<lparr>data_bugs =
                    limit_docs (or_default (parseInt (q_limit q)) 10)
                      (skip_docs (num_times (num_minus (or_default (parseInt (q_page q)) 1) (Num 1))
                                            (or_default (parseInt (q_limit q)) 10))
                         (sort_key (\<lambda>b. - createdAt b)
                            (filter (\<lambda>b. assignedTo b = None) (bugs st)))),
                  data_pagination =
                    paginate (length (filter (\<lambda>b. assignedTo b = None) (bugs st)))
                      (or_default (parseInt (q_page q)) 1)
                      (or_default (parseInt (q_limit q)) 10)\<rparr>"
      by simp
  }
qed

theorem unassigned_overrides_assignedTo_witness:
  "q_unassigned unassigned_query = Some ''true''
   \<and> validate_list unassigned_query = []
   \<and> q_assignedTo unassigned_query = Some bob_id
   \<and> list_bugs example_store unassigned_query
       = list_bugs example_store (unassigned_query\<lparr>q_assignedTo := None\<rparr>)
   \<and> list_bugs example_store unassigned_query =
       Ok200 \<lparr>data_bugs = [bug1],
              data_pagination = \<lparr>currentPage = Num 1, totalPages = Num 1, totalCount = 1,
                                  hasNext = False, hasPrev = False\<rparr>\<rparr>
   \<and> q_unassigned unassigned_abc_query = Some ''true''
   \<and> q_assignedTo unassigned_abc_query = Some ''abc'' \<and> \<not> isMongoId ''abc''
   \<and> validate_list unassigned_abc_query \<noteq> []
   \<and> list_bugs example_store unassigned_abc_query
       = BadRequest400 (validate_list unassigned_abc_query)
   \<and> isMongoId prefixed_id \<and> castObjectId prefixed_id = None
   \<and> validate_list (unassigned_query\<lparr>q_assignedTo := Some prefixed_id\<rparr>) = []
   \<and> list_bugs example_store (unassigned_query\<lparr>q_assignedTo := Some prefixed_id\<rparr>) =
       Ok200 \<lparr>data_bugs = [bug1],
              data_pagination = \<lparr>currentPage = Num 1, totalPages = Num 1, totalCount = 1,
                                  hasNext = False, hasPrev = False\<rparr>\<rparr>"
proof -
  have h1: "q_unassigned unassigned_query = Some ''true''"
    by (simp add: unassigned_query_def no_query_def)
  have h2: "validate_list unassigned_query = []"
    by code_simp
  have h3: "q_assignedTo unassigned_query = Some bob_id"
    by (simp add: unassigned_query_def no_query_def)
  have v: "list_bugs example_store unassigned_query =
       Ok200 \<lparr>data_bugs = [bug1],
              data_pagination = \<lparr>currentPage = Num 1, totalPages = Num 1, totalCount = 1,
                                  hasNext = False, hasPrev = False\<rparr>\<rparr>"
    by code_simp
  have g1: "q_unassigned unassigned_abc_query = Some ''true''"
    by (simp add: unassigned_abc_query_def no_query_def)
  have g2: "q_assignedTo unassigned_abc_query = Some ''abc'' \<and> \<not> isMongoId ''abc''"
    by code_simp
  have g3: "validate_list unassigned_abc_query \<noteq> []"
    by code_simp
  have k1: "q_unassigned (unassigned_query\<lparr>q_assignedTo := Some prefixed_id\<rparr>) = Some ''true''"
    by (simp add: unassigned_query_def no_query_def)
  have k2: "isMongoId prefixed_id \<and> castObjectId prefixed_id = None
      \<and> validate_list (unassigned_query\<lparr>q_assignedTo := Some prefixed_id\<rparr>) = []"
    by code_simp
  have k3: "list_bugs example_store (unassigned_query\<lparr>q_assignedTo := Some prefixed_id\<rparr>)
      = list_bugs example_store (unassigned_query\<lparr>q_assignedTo := None\<rparr>)"
    using unassigned_overrides_assignedTo [OF k1, of example_store] k2 by simp
  from unassigned_overrides_assignedTo [OF h1, of example_store]
    unassigned_overrides_assignedTo [OF g1, of example_store] h1 h2 h3 v g1 g2 g3 k2 k3
  show ?thesis by simp
qed

text \<open>
  With \<open>unassigned=true\<close> and the malformed \<open>assignedTo=abc\<close> the listing returns no
  records at all: the validator chain answers with the client-input error.
\<close>

theorem unassigned_malformed_counterexample:
  "q_unassigned unassigned_abc_query = Some ''true''
   \<and> q_assignedTo unassigned_abc_query = Some ''abc''
   \<and> list_bugs example_store unassigned_abc_query = BadRequest400 [''assignedTo'']"
  by code_simp

text \<open>
  Claim C3. The listing and the export build the same predicate from a query, so
  for a query that passes the validator chain the total count the listing reports is
  the number of rows the export writes, over the same store; if the store rejects
  the predicate, both answer with status 500.
\<close>

theorem listing_export_same_predicate:
  assumes "validate_list q = []"
  shows "list_filter q = export_filter q
     \<and> (\<forall>csvRows. export_rows st toISOString q = Inr csvRows \<longrightarrow>
           (\<exists>l. list_bugs st q = Ok200 l \<and> totalCount (data_pagination l) = length csvRows))
     \<and> (\<forall>e. export_rows st toISOString q = Inl e \<longrightarrow> list_bugs st q = ServerError500)"
proof (intro conjI allI impI)
  show "list_filter q = export_filter q" by (rule filters_equal)
next
  fix csvRows
  assume "export_rows st toISOString q = Inr csvRows"
  then obtain found where f: "find_sorted st (list_filter q) = Inr found"
    and r: "csvRows = map (csv_row (users st) toISOString) found"
    by (auto simp: export_rows_def filters_equal split: sum.splits)
  from list_bugs_found [OF assms f] r
  show "\<exists>l. list_bugs st q = Ok200 l \<and> totalCount (data_pagination l) = length csvRows"
    by (simp add: totalCount_paginate)
next
  fix e
  assume "export_rows st toISOString q = Inl e"
  then have "find_sorted st (list_filter q) = Inl e"
    by (auto simp: export_rows_def filters_equal split: sum.splits)
  then show "list_bugs st q = ServerError500"
    by (rule list_bugs_store_error [OF assms])
qed

theorem listing_export_same_predicate_witness:
  "validate_list open_query = []
   \<and> list_filter open_query = export_filter open_query
   \<and> export_rows example_store example_iso open_query
       = Inr [csv_row example_users example_iso bug1]
   \<and> (\<exists>l. list_bugs example_store open_query = Ok200 l
            \<and> totalCount (data_pagination l) = length [csv_row example_users example_iso bug1])
   \<and> validate_list paren_query = []
   \<and> export_rows example_store example_iso paren_query = Inl RegexError
   \<and> list_bugs example_store paren_query = ServerError500"
proof -
  have h: "validate_list open_query = []"
    by (simp add: open_query_def no_query_def validate_list_def check_def)
  have r: "export_rows example_store example_iso open_query
       = Inr [csv_row example_users example_iso bug1]"
    by code_simp
  have h': "validate_list paren_query = []"
    by (simp add: paren_query_def no_query_def validate_list_def check_def)
  have r': "export_rows example_store example_iso paren_query = Inl RegexError"
    by code_simp
  from listing_export_same_predicate [OF h, of example_store example_iso]
    listing_export_same_predicate [OF h', of example_store example_iso] h r h' r'
  show ?thesis by blast
qed

lemma list_filter_empty_search:
  "list_filter (q\<lparr>q_search := Some []\<rparr>) = list_filter (q\<lparr>q_search := None\<rparr>)"
  by (simp add: list_filter_def Let_def truthy_def)

lemma validate_search_irrelevant:
  "validate_list (q\<lparr>q_search := v\<rparr>) = validate_list (q\<lparr>q_search := None\<rparr>)"
  by (simp add: validate_list_def check_def split: option.splits)

text \<open>
  Claim C5, as the code has it. An empty search value is treated as absent: filter
  and response are those of the query without a search value. Any other search
  value, one made of white space included, becomes the pattern of the search clause.
\<close>

theorem empty_search_is_absent:
  "list_filter (q\<lparr>q_search := Some []\<rparr>) = list_filter (q\<lparr>q_search := None\<rparr>)
   \<and> list_bugs st (q\<lparr>q_search := Some []\<rparr>) = list_bugs st (q\<lparr>q_search := None\<rparr>)
   \<and> f_or (list_filter (q\<lparr>q_search := None\<rparr>)) = None
   \<and> (s \<noteq> [] \<longrightarrow> f_or (list_filter (q\<lparr>q_search := Some s\<rparr>)) = Some s)"
proof (intro conjI impI)
  show e: "list_filter (q\<lparr>q_search := Some []\<rparr>) = list_filter (q\<lparr>q_search := None\<rparr>)"
    by (rule list_filter_empty_search)
  show "list_bugs st (q\<lparr>q_search := Some []\<rparr>) = list_bugs st (q\<lparr>q_search := None\<rparr>)"
    by (simp add: list_bugs_def e validate_search_irrelevant [where q = q and v = "Some []"])
  show "f_or (list_filter (q\<lparr>q_search := None\<rparr>)) = None"
    by (simp add: list_filter_def Let_def truthy_def empty_filter_def)
  show "f_or (list_filter (q\<lparr>q_search := Some s\<rparr>)) = Some s" if "s \<noteq> []"
    using that by (simp add: list_filter_def Let_def truthy_def)
qed

theorem empty_search_is_absent_witness:
  "''  '' \<noteq> [] \<and> f_or (list_filter (no_query\<lparr>q_search := Some ''  ''\<rparr>)) = Some ''  ''
   \<and> list_bugs example_store (no_query\<lparr>q_search := Some []\<rparr>) = list_bugs example_store (no_query\<lparr>q_search := None\<rparr>)"
  using empty_search_is_absent [of no_query example_store "''  ''"] by simp

text \<open>
  A search value of two spaces is not treated as absent: it selects the records
  whose title or description holds two consecutive spaces, here none, while the
  query without a search value lists both records.
\<close>

theorem whitespace_search_counterexample:
  "list_bugs example_store (no_query\<lparr>q_search := Some ''  ''\<rparr>)
     = Ok200 \<lparr>data_bugs = [],
              data_pagination = \<lparr>currentPage = Num 1, totalPages = Num 0, totalCount = 0,
                                  hasNext = False, hasPrev = False\<rparr>\<rparr>
   \<and> list_bugs example_store no_query
     = Ok200 \<lparr>data_bugs = [bug2, bug1],
              data_pagination = \<lparr>currentPage = Num 1, totalPages = Num 1, totalCount = 2,
                                  hasNext = False, hasPrev = False\<rparr>\<rparr>"
  by code_simp

section \<open>Properties of the CSV serialisation\<close>

lemma replace_quotes_concat:
  "replace_quotes s = concat (map (\<lambda>c. if c = CHR 0x22 then [CHR 0x22, CHR 0x22] else [c]) s)"
  by (induction s) simp_all

lemma escapeCSV_quoted: "needs_quoting s \<Longrightarrow> escapeCSV s = quoted s"
  by (simp add: escapeCSV_def needs_quoting_def quoted_def replace_quotes_concat)

lemma escapeCSV_plain: "\<not> needs_quoting s \<Longrightarrow> escapeCSV s = s"
  by (simp add: escapeCSV_def needs_quoting_def)

lemma escapeCSV_serialized: "escapeCSV s = serialized s"
  by (simp add: serialized_def escapeCSV_quoted escapeCSV_plain)

lemma status_str_plain: "\<not> needs_quoting (status_str s)"
  by (cases s) (simp_all add: needs_quoting_def)

lemma priority_str_plain: "\<not> needs_quoting (priority_str p)"
  by (cases p) (simp_all add: needs_quoting_def)

lemma type_str_plain: "\<not> needs_quoting (type_str t)"
  by (cases t) (simp_all add: needs_quoting_def)

lemma join_separated: "join sep xs = separated_by sep xs"
  by (induction sep xs rule: join.induct) (simp_all add: separated_by_def)

lemma csv_fields_serialized:
  assumes "\<not> needs_quoting (bug_id b)"
    and "\<not> needs_quoting (toISOString (createdAt b))"
    and "\<not> needs_quoting (toISOString (updatedAt b))"
  shows "csv_fields us toISOString b = map serialized (column_values us toISOString b)"
  using assms
  by (simp add: column_values_def csv_fields_def escapeCSV_serialized)
     (simp add: serialized_def status_str_plain priority_str_plain type_str_plain)

lemma csv_row_serialized:
  assumes "\<not> needs_quoting (bug_id b)"
    and "\<not> needs_quoting (toISOString (createdAt b))"
    and "\<not> needs_quoting (toISOString (updatedAt b))"
  shows "csv_row us toISOString b
         = separated_by '','' (map serialized (column_values us toISOString b))"
  by (simp add: csv_row_def join_separated csv_fields_serialized [OF assms])

text \<open>
  Claim C8. In the export, a column value that contains a comma, a double quote or a
  line feed is written between double quotes with every double quote inside doubled,
  and any other value is written unchanged: the body the export sends is the header
  followed by the rows of the selected records separated by line feeds, each row
  being the ten column values of the record, each serialised this way, separated by
  commas. The free-text columns get this from \<open>escapeCSV\<close>; the enumeration columns
  are written as they are and never hold one of the three characters, and neither
  do an identifier or a timestamp in their standard renderings (the hypothesis).
  The description \<open>He said, "fix it"\<close> is written \<open>"He said, ""fix it"""\<close>.
\<close>

theorem export_escaping:
  assumes "\<forall>b \<in> set (bugs st). \<not> needs_quoting (bug_id b)
              \<and> \<not> needs_quoting (toISOString (createdAt b))
              \<and> \<not> needs_quoting (toISOString (updatedAt b))"
  shows "(\<forall>found. find_sorted st (export_filter q) = Inr found \<longrightarrow>
            export_rows st toISOString q
              = Inr (map (\<lambda>b. separated_by '',''
                                (map serialized (column_values (users st) toISOString b))) found)
            \<and> export_bugs st toISOString q
              = Ok200 (csvHeader @ separated_by [CHR 0x0A]
                         (map (\<lambda>b. separated_by '',''
                                (map serialized (column_values (users st) toISOString b))) found)))
         \<and> (\<forall>b \<in> set (bugs st).
              csv_row (users st) toISOString b
                = separated_by '','' (map serialized (column_values (users st) toISOString b))
              \<and> list_all2 (\<lambda>v s. s = (if needs_quoting v then quoted v else v))
                   (column_values (users st) toISOString b) (csv_fields (users st) toISOString b))
         \<and> (\<forall>s. escapeCSV s = (if needs_quoting s then quoted s else s))
         \<and> escapeCSV (''He said, '' @ [CHR 0x22] @ ''fix it'' @ [CHR 0x22])
           = [CHR 0x22] @ ''He said, '' @ [CHR 0x22, CHR 0x22] @ ''fix it''
             @ [CHR 0x22, CHR 0x22, CHR 0x22]"
proof -
  have row: "csv_row (users st) toISOString b
        = separated_by '','' (map serialized (column_values (users st) toISOString b))"
    if "b \<in> set (bugs st)" for b
    using assms that by (intro csv_row_serialized) auto
  have fields: "list_all2 (\<lambda>v s. s = (if needs_quoting v then quoted v else v))
       (column_values (users st) toISOString b) (csv_fields (users st) toISOString b)"
    if "b \<in> set (bugs st)" for b
  proof -
    from assms that have "csv_fields (users st) toISOString b
        = map serialized (column_values (users st) toISOString b)"
      by (intro csv_fields_serialized) auto
    then show ?thesis
      by (simp add: list_all2_conv_all_nth serialized_def)
  qed
  have esc: "escapeCSV s = (if needs_quoting s then quoted s else s)" for s
    by (simp add: escapeCSV_quoted escapeCSV_plain)
  have ex: "escapeCSV (''He said, '' @ [CHR 0x22] @ ''fix it'' @ [CHR 0x22])
           = [CHR 0x22] @ ''He said, '' @ [CHR 0x22, CHR 0x22] @ ''fix it''
             @ [CHR 0x22, CHR 0x22, CHR 0x22]"
    by (simp add: escapeCSV_def)
  have body: "export_rows st toISOString q
              = Inr (map (\<lambda>b. separated_by '',''
                                (map serialized (column_values (users st) toISOString b))) found)
            \<and> export_bugs st toISOString q
              = Ok200 (csvHeader @ separated_by [CHR 0x0A]
                         (map (\<lambda>b. separated_by '',''
                                (map serialized (column_values (users st) toISOString b))) found))"
    if f: "find_sorted st (export_filter q) = Inr found" for found
  proof -
    from found_subset [OF f] row
    have "map (csv_row (users st) toISOString) found
          = map (\<lambda>b. separated_by '',''
                                (map serialized (column_values (users st) toISOString b))) found"
      by (intro map_cong) auto

    moreover from f have "export_rows st toISOString q
          = Inr (map (csv_row (users st) toISOString) found)"
      by (simp add: export_rows_def)
    ultimately have r: "export_rows st toISOString q
          = Inr (map (\<lambda>b. separated_by '',''
                                (map serialized (column_values (users st) toISOString b))) found)"
      by (simp only:)
    then show ?thesis
      by (simp add: export_bugs_def join_separated)
  qed
  from body row fields esc ex show ?thesis by blast
qed

theorem export_escaping_witness:
  "bugs example_store = [bug1, bug2]
   \<and> \<not> needs_quoting (bug_id bug1)
   \<and> \<not> needs_quoting (example_iso (createdAt bug1))
   \<and> \<not> needs_quoting (example_iso (updatedAt bug1))
   \<and> \<not> needs_quoting (bug_id bug2)
   \<and> \<not> needs_quoting (example_iso (createdAt bug2))
   \<and> \<not> needs_quoting (example_iso (updatedAt bug2))
   \<and> find_sorted example_store (export_filter no_query) = Inr [bug2, bug1]
   \<and> column_values (users example_store) example_iso bug1 ! 2
       = ''He said, '' @ [CHR 0x22] @ ''fix it'' @ [CHR 0x22]
   \<and> export_bugs example_store example_iso no_query
       = Ok200 (''ID,Title,Description,Status,Priority,Type,Assigned To,Reporter,Created At,Updated At''
                @ [CHR 0x0A]
                @ ''64b0000000000000000000a2,LOGIN page broken,cannot sign in,closed,critical,bug,''
                @ ''Bob Stone,Ada Lovelace,2024-03-15T00:00:00.000Z,2024-03-15T00:00:00.000Z''
                @ [CHR 0x0A]
                @ ''64b0000000000000000000a1,abc,'' @ [CHR 0x22] @ ''He said, ''
                @ [CHR 0x22, CHR 0x22] @ ''fix it'' @ [CHR 0x22, CHR 0x22, CHR 0x22]
                @ '',open,high,bug,Unassigned,Ada Lovelace,''
                @ ''2024-03-15T00:00:00.000Z,2024-03-15T00:00:00.000Z'')"
proof -
  have h: "\<forall>b \<in> set (bugs example_store). \<not> needs_quoting (bug_id b)
              \<and> \<not> needs_quoting (example_iso (createdAt b))
              \<and> \<not> needs_quoting (example_iso (updatedAt b))"
    by (simp add: example_store_def needs_quoting_def bug1_def bug2_def example_iso_def)
  have f: "find_sorted example_store (export_filter no_query) = Inr [bug2, bug1]"
    by code_simp
  have c: "column_values (users example_store) example_iso bug1 ! 2
       = ''He said, '' @ [CHR 0x22] @ ''fix it'' @ [CHR 0x22]"
    by (simp add: column_values_def bug1_def)
  have v1: "separated_by '','' (map serialized (column_values (users example_store) example_iso bug1))
       = ''64b0000000000000000000a1,abc,'' @ [CHR 0x22] @ ''He said, ''
                @ [CHR 0x22, CHR 0x22] @ ''fix it'' @ [CHR 0x22, CHR 0x22, CHR 0x22]
                @ '',open,high,bug,Unassigned,Ada Lovelace,''
                @ ''2024-03-15T00:00:00.000Z,2024-03-15T00:00:00.000Z''"
    by code_simp
  have v2: "separated_by '','' (map serialized (column_values (users example_store) example_iso bug2))
       = ''64b0000000000000000000a2,LOGIN page broken,cannot sign in,closed,critical,bug,''
                @ ''Bob Stone,Ada Lovelace,2024-03-15T00:00:00.000Z,2024-03-15T00:00:00.000Z''"
    by code_simp
  have g: "bugs example_store = [bug1, bug2]
   \<and> \<not> needs_quoting (bug_id bug1)
   \<and> \<not> needs_quoting (example_iso (createdAt bug1))
   \<and> \<not> needs_quoting (example_iso (updatedAt bug1))
   \<and> \<not> needs_quoting (bug_id bug2)
   \<and> \<not> needs_quoting (example_iso (createdAt bug2))
   \<and> \<not> needs_quoting (example_iso (updatedAt bug2))"
    by (simp add: example_store_def needs_quoting_def bug1_def bug2_def example_iso_def)
  have e: "export_bugs example_store example_iso no_query
       = Ok200 (csvHeader @ separated_by [CHR 0x0A]
                  (map (\<lambda>b. separated_by '',''
                         (map serialized (column_values (users example_store) example_iso b)))
                     [bug2, bug1]))"
    using export_escaping [OF h, of no_query] f by blast
  from e g f c v1 v2
  show ?thesis by (simp add: separated_by_def csvHeader_def)
qed

section \<open>Properties of the pagination envelope\<close>

lemma shift_count_small: "a < 9007199254740992 \<Longrightarrow> shift_count a = 0"
  by (simp add: shift_count.simps)

lemma round_half_even_0: "round_half_even a 0 = a"
  by (simp add: round_half_even_def)

lemma to_Number_small: "\<bar>i\<bar> < 9007199254740992 \<Longrightarrow> to_Number i = Num i"
  by (simp add: to_Number_def shift_count_small round_half_even_0 Let_def)

lemma to_Number_2_53: "to_Number 9007199254740992 = Num 9007199254740992"
  by code_simp

lemma to_Number_exact: "0 \<le> i \<Longrightarrow> i \<le> 9007199254740992 \<Longrightarrow> to_Number i = Num i"
  using to_Number_small [of i] to_Number_2_53 by (cases "i = 9007199254740992") auto

lemma shift_div_lower:
  "4503599627370496 \<le> a \<Longrightarrow> 4503599627370496 \<le> a div 2 ^ shift_count a"
proof (induction a rule: shift_count.induct)
  case (1 a)
  show ?case
  proof (cases "a < 9007199254740992")
    case True
    with 1(2) show ?thesis by (simp add: shift_count_small)
  next
    case False
    then have h: "4503599627370496 \<le> a div 2" by simp
    have "a div 2 ^ shift_count a = (a div 2) div 2 ^ shift_count (a div 2)"
      using False by (subst shift_count.simps) (simp add: zdiv_zmult2_eq)
    with 1(1) [OF False h] show ?thesis by simp
  qed
qed

lemma shift_count_pos: "9007199254740992 \<le> a \<Longrightarrow> 0 < shift_count a"
  by (subst shift_count.simps) simp

lemma round_half_even_lower: "(a div 2 ^ e) * 2 ^ e \<le> round_half_even a e"
  by (simp add: round_half_even_def Let_def)

lemma round_big:
  assumes "9007199254740992 \<le> a"
  shows "9007199254740992 \<le> round_half_even a (shift_count a)"
proof -
  from assms have q: "4503599627370496 \<le> a div 2 ^ shift_count a"
    by (intro shift_div_lower) simp
  from shift_count_pos [OF assms] have "(2::int) ^ 1 \<le> 2 ^ shift_count a"
    by (intro power_increasing) simp_all
  then have e: "(2::int) \<le> 2 ^ shift_count a" by simp
  from q e have "4503599627370496 * 2 \<le> (a div 2 ^ shift_count a) * 2 ^ shift_count a"
    by (intro mult_mono) simp_all
  with round_half_even_lower [of a "shift_count a"] show ?thesis by simp
qed

lemma to_Number_big:
  assumes "9007199254740992 \<le> i"
  shows "to_Number i = Infinity \<or> (\<exists>m. to_Number i = Num m \<and> 9007199254740992 \<le> m)"
  using assms round_big [OF assms] by (simp add: to_Number_def Let_def)

lemma or_default_page:
  assumes "1 \<le> i"
  shows "or_default (to_Number i) 1 = to_Number i"
proof (cases "i < 9007199254740992")
  case True
  with assms show ?thesis by (simp add: to_Number_small or_default_def)
next
  case False
  with to_Number_big [of i] show ?thesis by (auto simp: or_default_def)
qed

lemma hasPrev_page:
  assumes "1 \<le> i"
  shows "num_less (Num 1) (to_Number i) = (1 < i)"
proof (cases "i < 9007199254740992")
  case True
  with assms show ?thesis by (simp add: to_Number_small)
next
  case False
  with to_Number_big [of i] show ?thesis by auto
qed

lemma hasNext_page:
  assumes "1 \<le> i" and "t < 9007199254740992"
  shows "num_less (to_Number i) (Num t) = (i < t)"
proof (cases "i < 9007199254740992")
  case True
  with assms show ?thesis by (simp add: to_Number_small)
next
  case False
  with to_Number_big [of i] assms(2) show ?thesis by auto
qed

lemma digit_cases: "k < 10 \<Longrightarrow> k \<in> {0, 1, 2, 3, 4, 5, 6, 7, 8, 9::nat}"
  by auto

lemma digit_char_value: "k < 10 \<Longrightarrow> digit_value (digit_char k) = Some (int k)"
  by (drule digit_cases) (auto simp: digit_char_def digit_value_def)

lemma digit_char_plain:
  "k < 10 \<Longrightarrow> \<not> js_whitespace (digit_char k) \<and> digit_char k \<noteq> CHR ''-''
     \<and> digit_char k \<noteq> CHR ''+'' \<and> digit_char k \<noteq> CHR ''x'' \<and> digit_char k \<noteq> CHR ''X''"
  by (drule digit_cases) (auto simp: digit_char_def js_whitespace_def)

lemma show_nat_digits:
  "\<exists>ks. ks \<noteq> [] \<and> (\<forall>k\<in>set ks. k < 10) \<and> show_nat n = map digit_char ks
        \<and> foldl (\<lambda>a d. 10 * a + d) 0 ks = n"
proof (induction n rule: show_nat.induct)
  case (1 n)
  show ?case
  proof (cases "n < 10")
    case True
    then have "show_nat n = map digit_char [n]"
      by (simp add: show_nat.simps)
    with True show ?thesis
      by (intro exI [of _ "[n]"]) simp
  next
    case False
    with 1 obtain ks where ks: "ks \<noteq> []" "\<forall>k\<in>set ks. k < 10"
      "show_nat (n div 10) = map digit_char ks" "foldl (\<lambda>a d. 10 * a + d) 0 ks = n div 10"
      by blast
    from False ks(3) have "show_nat n = map digit_char (ks @ [n mod 10])"
      by (subst show_nat.simps) simp
    with ks show ?thesis
      by (intro exI [of _ "ks @ [n mod 10]"]) simp
  qed
qed

lemma read_digits_map:
  "\<forall>k\<in>set ks. k < 10 \<Longrightarrow> read_digits 10 (map digit_char ks) = map int ks"
  by (induction ks) (simp_all add: digit_char_value)

lemma foldl_int_digits:
  "foldl (\<lambda>a d. 10 * a + d) (int a0) (map int ks) = int (foldl (\<lambda>a d. 10 * a + d) a0 ks)"
proof (induction ks arbitrary: a0)
  case Nil
  show ?case by simp
next
  case (Cons k ks)
  from Cons [of "10 * a0 + k"] show ?case by simp
qed

lemma parseInt_digits:
  assumes "ks \<noteq> []" and "\<forall>k\<in>set ks. k < 10"
  shows "parseInt (Some (map digit_char ks))
         = to_Number (int (foldl (\<lambda>a d. 10 * a + d) 0 ks))"
proof -
  from assms obtain k rest where ks: "ks = k # rest" and k: "k < 10"
    by (cases ks) auto
  have w: "dropWhile js_whitespace (map digit_char ks) = map digit_char ks"
    using digit_char_plain [OF k] by (simp add: ks)
  have sg: "strip_sign (map digit_char ks) = (False, map digit_char ks)"
    using digit_char_plain [OF k] by (simp add: ks strip_sign_def)
  have hx: "take 2 (map digit_char ks) \<noteq> ''0x'' \<and> take 2 (map digit_char ks) \<noteq> ''0X''"
  proof (cases rest)
    case Nil
    then show ?thesis by (simp add: ks)
  next
    case (Cons k2 rest2)
    with assms(2) ks have "k2 < 10" by simp
    from digit_char_plain [OF this] show ?thesis
      by (simp add: ks Cons)
  qed
  have fl: "foldl (\<lambda>a d. 10 * a + d) 0 (map int ks) = int (foldl (\<lambda>a d. 10 * a + d) 0 ks)"
    using foldl_int_digits [of 0 ks] by simp
  show ?thesis
    using assms hx by (simp add: parseInt_def w sg read_digits_map fl)
qed

lemma parseInt_show_nat: "parseInt (Some (show_nat n)) = to_Number (int n)"
proof -
  from show_nat_digits [of n] obtain ks where ks: "ks \<noteq> []" "\<forall>k\<in>set ks. k < 10"
    "show_nat n = map digit_char ks" "foldl (\<lambda>a d. 10 * a + d) 0 ks = n"
    by blast
  from parseInt_digits [OF ks(1,2)] ks(3,4) show ?thesis by simp
qed

lemma currentPage_paginate: "currentPage (paginate n p s) = p"
  by (simp add: paginate_def Let_def)

lemma found_of_count:
  "countDocuments st f = Inr n \<Longrightarrow> \<exists>found. find_sorted st f = Inr found \<and> length found = n"
  by (auto simp: find_sorted_def countDocuments_def split: sum.splits)

lemma pages_bounds:
  assumes "1 \<le> s"
  shows "int n \<le> s * (- (- int n div s))
     \<and> s * (- (- int n div s) - 1) < int n
     \<and> 0 \<le> - (- int n div s)
     \<and> - (- int n div s) \<le> int n"
proof -
  define d where "d = (- int n) div s"
  define m where "m = (- int n) mod s"
  have s: "0 < s" using assms by simp
  have eq: "- int n = s * d + m"
    unfolding d_def m_def by simp
  have m: "0 \<le> m" "m < s"
    unfolding m_def using s by simp_all
  have a: "int n \<le> s * (- d)"
    using eq m by simp
  have b: "s * (- d - 1) < int n"
    using eq m by (simp add: algebra_simps)
  have c: "d \<le> 0"
    unfolding d_def using s by (intro div_nonpos_pos_le0) simp_all
  have e: "- d \<le> int n"
  proof (rule ccontr)
    assume "\<not> - d \<le> int n"
    then have "int n + 1 \<le> - d" by simp
    then have "s * (int n + 1) \<le> s * (- d)"
      using s by (intro mult_left_mono) simp_all
    with eq m have "s * int n + s \<le> int n + m" by (simp add: algebra_simps)
    moreover have "0 \<le> (s - 1) * int n"
      using assms by (intro mult_nonneg_nonneg) simp_all
    then have "int n \<le> s * int n"
      by (simp add: algebra_simps)
    ultimately show False using m by simp
  qed
  from a b c e show ?thesis by (simp add: d_def)
qed

text \<open>
  Claim C2, as the code has it. For a total count \<open>n\<close> (below \<open>2^53\<close>, so that the
  store reports it exactly), a requested page \<open>p \<ge> 1\<close> and a page size \<open>s\<close> from 1 to
  100, the envelope of the listing has as \<open>currentPage\<close> the number that \<open>parseInt\<close>
  reads from the request: \<open>p\<close> itself, unclamped, up to \<open>2^53\<close>, and beyond that the
  double nearest to \<open>p\<close>. \<open>totalPages\<close> is the ceiling of \<open>n / s\<close> (the least number
  of pages of \<open>s\<close> records that hold \<open>n\<close>), which is 0 when \<open>n = 0\<close>; \<open>hasNext\<close> holds
  iff \<open>p < totalPages\<close> and \<open>hasPrev\<close> iff \<open>p > 1\<close>. It is the client's wrapper that
  shows 0 pages as 1.
\<close>

theorem pagination_envelope:
  assumes "1 \<le> p" and "1 \<le> s" and "s \<le> 100"
    and "q_page q = Some (show_nat p)" and "q_limit q = Some (show_nat s)"
    and "validate_list q = []"
    and "countDocuments st (list_filter q) = Inr n"
    and "n < 9007199254740992"
  shows "\<exists>l t. list_bugs st q = Ok200 l
     \<and> currentPage (data_pagination l) = to_Number (int p)
     \<and> (p \<le> 9007199254740992 \<longrightarrow> currentPage (data_pagination l) = Num (int p))
     \<and> totalCount (data_pagination l) = n
     \<and> totalPages (data_pagination l) = Num t
     \<and> int n \<le> int s * t
     \<and> int s * (t - 1) < int n
     \<and> (n = 0 \<longrightarrow> t = 0)
     \<and> hasNext (data_pagination l) = num_less (currentPage (data_pagination l)) (Num t)
     \<and> hasNext (data_pagination l) = (int p < t)
     \<and> hasPrev (data_pagination l) = (p > 1)
     \<and> totalPages (client_pagination (data_pagination l) (length (data_bugs l)))
         = Num (max 1 t)"
proof -
  from found_of_count [OF assms(7)] obtain found
    where f: "find_sorted st (list_filter q) = Inr found" and len: "length found = n"
    by blast
  have p1: "1 \<le> int p" using assms(1) by simp
  have pg: "or_default (parseInt (q_page q)) 1 = to_Number (int p)"
    by (simp add: assms(4) parseInt_show_nat or_default_page [OF p1])
  have lm: "or_default (parseInt (q_limit q)) 10 = Num (int s)"
    using assms(2,3) by (simp add: assms(5) parseInt_show_nat to_Number_small or_default_def)
  define t where "t = - (- int n div int s)"
  define l where "l = \<lparr>data_bugs = limit_docs (Num (int s))
                           (skip_docs (num_times (num_minus (to_Number (int p)) (Num 1)) (Num (int s)))
                              found),
                        data_pagination = paginate n (to_Number (int p)) (Num (int s))\<rparr>"
  have ok: "list_bugs st q = Ok200 l"
    using list_bugs_found [OF assms(6) f] by (simp add: pg lm len l_def)
  have s1: "1 \<le> int s" using assms(2) by simp
  then have s0: "int s \<noteq> 0" by simp
  note pd = paginate_div [OF s0, of n "to_Number (int p)", folded t_def]
  from pages_bounds [OF s1, of n]
  have b1: "int n \<le> int s * t" and b2: "int s * (t - 1) < int n" and b3: "0 \<le> t"
    and b4: "t \<le> int n"
    by (simp_all add: t_def)
  from b4 assms(8) have tb: "t < 9007199254740992" by simp
  have zero: "n = 0 \<longrightarrow> t = 0"
    by (simp add: t_def)
  have cur: "p \<le> 9007199254740992 \<longrightarrow> to_Number (int p) = Num (int p)"
    by (simp add: to_Number_exact)
  have client: "totalPages (client_pagination (paginate n (to_Number (int p)) (Num (int s))) k)
         = Num (max 1 t)" for k
    using b3 by (auto simp: pd client_pagination_def json_falsy_def)
  have nxt: "hasNext (paginate n (to_Number (int p)) (Num (int s))) = (int p < t)"
    by (simp add: pd hasNext_page [OF p1 tb])
  have prv: "hasPrev (paginate n (to_Number (int p)) (Num (int s))) = (p > 1)"
    using hasPrev_page [OF p1] by (simp add: pd)
  have rest: "currentPage (paginate n (to_Number (int p)) (Num (int s))) = to_Number (int p)
     \<and> totalCount (paginate n (to_Number (int p)) (Num (int s))) = n
     \<and> totalPages (paginate n (to_Number (int p)) (Num (int s))) = Num t
     \<and> hasNext (paginate n (to_Number (int p)) (Num (int s)))
         = num_less (to_Number (int p)) (Num t)"
    by (simp add: pd)
  from ok b1 b2 zero cur client nxt prv rest show ?thesis
    by (intro exI [of _ l] exI [of _ t]) (simp add: l_def currentPage_paginate)
qed

theorem pagination_envelope_witness:
  "(1::nat) \<le> 2 \<and> (1::nat) \<le> 1 \<and> (1::nat) \<le> 100
   \<and> q_page second_page_query = Some (show_nat 2)
   \<and> q_limit second_page_query = Some (show_nat 1)
   \<and> validate_list second_page_query = []
   \<and> countDocuments example_store (list_filter second_page_query) = Inr 2
   \<and> (2::nat) < 9007199254740992
   \<and> list_bugs example_store second_page_query
       = Ok200 \<lparr>data_bugs = [bug1],
                data_pagination = \<lparr>currentPage = Num 2, totalPages = Num 2, totalCount = 2,
                                    hasNext = False, hasPrev = True\<rparr>\<rparr>
   \<and> (1::nat) \<le> 10 \<and> (10::nat) \<le> 100
   \<and> q_page first_page_query = Some (show_nat 1)
   \<and> q_limit first_page_query = Some (show_nat 10)
   \<and> validate_list first_page_query = []
   \<and> countDocuments empty_store (list_filter first_page_query) = Inr 0
   \<and> (\<exists>l. list_bugs empty_store first_page_query = Ok200 l
            \<and> totalPages (data_pagination l) = Num 0
            \<and> totalPages (client_pagination (data_pagination l) (length (data_bugs l))) = Num 1)"
proof -
  have h4: "q_page second_page_query = Some (show_nat 2)"
    by (simp add: second_page_query_def no_query_def show_nat.simps digit_char_def)
  have h5: "q_limit second_page_query = Some (show_nat 1)"
    by (simp add: second_page_query_def no_query_def show_nat.simps digit_char_def)
  have h6: "validate_list second_page_query = []" by code_simp
  have h7: "countDocuments example_store (list_filter second_page_query) = Inr 2" by code_simp
  have v: "list_bugs example_store second_page_query
       = Ok200 \<lparr>data_bugs = [bug1],
                data_pagination = \<lparr>currentPage = Num 2, totalPages = Num 2, totalCount = 2,
                                    hasNext = False, hasPrev = True\<rparr>\<rparr>"
    by code_simp
  have g4: "q_page first_page_query = Some (show_nat 1)"
    by (simp add: first_page_query_def no_query_def show_nat.simps digit_char_def)
  have g5: "q_limit first_page_query = Some (show_nat 10)"
    by (simp add: first_page_query_def no_query_def show_nat.simps digit_char_def)
  have g6: "validate_list first_page_query = []" by code_simp
  have g7: "countDocuments empty_store (list_filter first_page_query) = Inr 0" by code_simp
  have e: "\<exists>l. list_bugs empty_store first_page_query = Ok200 l
            \<and> totalPages (data_pagination l) = Num 0
            \<and> totalPages (client_pagination (data_pagination l) (length (data_bugs l))) = Num 1"
    using pagination_envelope [OF _ _ _ g4 g5 g6 g7] by auto
  from pagination_envelope [OF _ _ _ h4 h5 h6 h7] h4 h5 h6 h7 v g4 g5 g6 g7 e show ?thesis
    by simp
qed

text \<open>
  On a store without records the first page of ten has \<open>totalPages = 0\<close>, not 1. And
  the requested page 9007199254740993, one above \<open>2^53\<close>, is reported as
  9007199254740992.
\<close>

theorem empty_listing_counterexample:
  "validate_list first_page_query = []
   \<and> list_bugs empty_store first_page_query
     = Ok200 \<lparr>data_bugs = [],
              data_pagination = \<lparr>currentPage = Num 1, totalPages = Num 0, totalCount = 0,
                                  hasNext = False, hasPrev = False\<rparr>\<rparr>
   \<and> q_page big_page_query = Some ''9007199254740993''
   \<and> validate_list big_page_query = []
   \<and> list_bugs example_store big_page_query
     = Ok200 \<lparr>data_bugs = [],
              data_pagination = \<lparr>currentPage = Num 9007199254740992, totalPages = Num 1,
                                  totalCount = 2, hasNext = False, hasPrev = True\<rparr>\<rparr>"
proof -
  have a: "validate_list first_page_query = []
   \<and> list_bugs empty_store first_page_query
     = Ok200 \<lparr>data_bugs = [],
              data_pagination = \<lparr>currentPage = Num 1, totalPages = Num 0, totalCount = 0,
                                  hasNext = False, hasPrev = False\<rparr>\<rparr>"
    by code_simp
  have q: "q_page big_page_query = Some ''9007199254740993''"
    by (simp add: big_page_query_def no_query_def)
  have v: "validate_list big_page_query = []"
    by code_simp
  have f: "find_sorted example_store (list_filter big_page_query) = Inr [bug2, bug1]"
    by code_simp
  have pg: "or_default (parseInt (q_page big_page_query)) 1 = Num 9007199254740992"
    by code_simp
  have lm: "or_default (parseInt (q_limit big_page_query)) 10 = Num 10"
    by code_simp
  have sk: "num_times (num_minus (Num 9007199254740992) (Num 1)) (Num 10)
            = Num 90071992547409904"
    by code_simp
  have w: "limit_docs (Num 10) (skip_docs (Num 90071992547409904) [bug2, bug1]) = []"
    by (simp add: limit_docs_def skip_docs_def)
  have e: "paginate (length [bug2, bug1]) (Num 9007199254740992) (Num 10)
           = \<lparr>currentPage = Num 9007199254740992, totalPages = Num 1,
               totalCount = 2, hasNext = False, hasPrev = True\<rparr>"
    by (simp add: paginate_div)
  from list_bugs_found [OF v f] have "list_bugs example_store big_page_query
     = Ok200 \<lparr>data_bugs = [],
              data_pagination = \<lparr>currentPage = Num 9007199254740992, totalPages = Num 1,
                                  totalCount = 2, hasNext = False, hasPrev = True\<rparr>\<rparr>"
    by (simp only: pg lm sk w e)
  with a q v show ?thesis by simp
qed

section \<open>Validation: listing against export\<close>

lemma export_bugs_cases:
  "export_bugs st toISOString q =
     (case find_sorted st (export_filter q) of
        Inl e \<Rightarrow> ServerError500
      | Inr found \<Rightarrow> Ok200 (csvHeader @ join [CHR 0x0A] (map (csv_row (users st) toISOString) found)))"
  by (simp add: export_bugs_def export_rows_def split: sum.splits)

lemma status_str_enum:
  "status_str x \<in> set [''open'', ''in-progress'', ''resolved'', ''closed'', ''reopened'']"
  by (cases x) simp_all

lemma priority_str_enum: "priority_str x \<in> set [''low'', ''medium'', ''high'', ''critical'']"
  by (cases x) simp_all

lemma type_str_enum: "type_str x \<in> set [''bug'', ''feature'', ''improvement'', ''task'']"
  by (cases x) simp_all

lemma validate_list_status:
  "q_status q = Some v \<Longrightarrow> v \<notin> set [''open'', ''in-progress'', ''resolved'', ''closed'', ''reopened'']
     \<Longrightarrow> ''status'' \<in> set (validate_list q)"
  by (simp add: validate_list_def check_def)

lemma validate_list_priority:
  "q_priority q = Some v \<Longrightarrow> v \<notin> set [''low'', ''medium'', ''high'', ''critical'']
     \<Longrightarrow> ''priority'' \<in> set (validate_list q)"
  by (simp add: validate_list_def check_def)

lemma validate_list_type:
  "q_type q = Some v \<Longrightarrow> v \<notin> set [''bug'', ''feature'', ''improvement'', ''task'']
     \<Longrightarrow> ''type'' \<in> set (validate_list q)"
  by (simp add: validate_list_def check_def)

lemma validate_list_reporter:
  "q_reporter q = Some v \<Longrightarrow> \<not> isMongoId v \<Longrightarrow> ''reporter'' \<in> set (validate_list q)"
  by (simp add: validate_list_def check_def)

text \<open>The raw values reach the store predicate.\<close>

lemma export_filter_raw:
  "(truthy (q_status q) \<longrightarrow> f_status (export_filter q) = q_status q)
   \<and> (truthy (q_priority q) \<longrightarrow> f_priority (export_filter q) = q_priority q)
   \<and> (truthy (q_type q) \<longrightarrow> f_type (export_filter q) = q_type q)
   \<and> (truthy (q_reporter q) \<longrightarrow> f_reporter (export_filter q) = q_reporter q)
   \<and> (truthy (q_assignedTo q) \<and> q_unassigned q \<noteq> Some ''true'' \<longrightarrow>
        f_assignedTo (export_filter q) = map_option Str (q_assignedTo q))"
  by (simp add: export_filter_def Let_def)

lemma castObjectId_isMongoId: "\<not> isMongoId v \<Longrightarrow> castObjectId v = None"
  by (auto simp: castObjectId_def isMongoId_def isHexadecimal_def)

lemma export_bad_status:
  assumes "q_status q = Some v" and "v \<noteq> []"
    and "v \<notin> set [''open'', ''in-progress'', ''resolved'', ''closed'', ''reopened'']"
    and "find_sorted st (export_filter q) = Inr found"
  shows "found = []"
proof -
  from assms(4) obtain p where p: "compile_filter (regex_i st) (export_filter q) = Inr p"
    and f: "found = sort_key (\<lambda>b. - createdAt b) (filter p (bugs st))"
    by (auto simp: find_sorted_def split: sum.splits)
  have fs: "f_status (export_filter q) = Some v"
    using assms(1,2) by (simp add: export_filter_def Let_def truthy_def)
  have "\<not> p b" for b
  proof
    assume "p b"
    with p fs have "status_str (status b) = v"
      by (auto simp: compile_filter_def eq_str_def split: sum.splits)
    with status_str_enum [of "status b"] assms(3) show False by simp
  qed
  then show ?thesis by (simp add: f)
qed

lemma export_bad_identifier:
  assumes "(q_assignedTo q = Some v \<and> q_unassigned q \<noteq> Some ''true'') \<or> q_reporter q = Some v"
    and "v \<noteq> []" and c: "castObjectId v = None"
  shows "find_sorted st (export_filter q) = Inl CastError"
proof -
  from assms(1) show ?thesis
  proof
    assume a: "q_assignedTo q = Some v \<and> q_unassigned q \<noteq> Some ''true''"
    then have "f_assignedTo (export_filter q) = Some (Str v)"
      using assms(2) by (simp add: export_filter_def Let_def truthy_def)
    then show ?thesis
      by (simp add: find_sorted_def compile_filter_def cast_assignedTo_def c)
  next
    assume a: "q_reporter q = Some v"
    then have "f_reporter (export_filter q) = Some v"
      using assms(2) by (simp add: export_filter_def Let_def truthy_def)
    then show ?thesis
      by (simp add: find_sorted_def compile_filter_def cast_assignedTo_def cast_reporter_def c
          split: option.splits field_value.splits sum.splits)
  qed
qed

lemma export_bad_priority:
  assumes "q_priority q = Some v" and "v \<noteq> []"
    and "v \<notin> set [''low'', ''medium'', ''high'', ''critical'']"
    and "find_sorted st (export_filter q) = Inr found"
  shows "found = []"
proof -
  from assms(4) obtain p where p: "compile_filter (regex_i st) (export_filter q) = Inr p"
    and f: "found = sort_key (\<lambda>b. - createdAt b) (filter p (bugs st))"
    by (auto simp: find_sorted_def split: sum.splits)
  have fs: "f_priority (export_filter q) = Some v"
    using assms(1,2) by (simp add: export_filter_def Let_def truthy_def)
  have "\<not> p b" for b
  proof
    assume "p b"
    with p fs have "priority_str (priority b) = v"
      by (auto simp: compile_filter_def eq_str_def split: sum.splits)
    with priority_str_enum [of "priority b"] assms(3) show False by simp
  qed
  then show ?thesis by (simp add: f)
qed

lemma export_bad_type:
  assumes "q_type q = Some v" and "v \<noteq> []"
    and "v \<notin> set [''bug'', ''feature'', ''improvement'', ''task'']"
    and "find_sorted st (export_filter q) = Inr found"
  shows "found = []"
proof -
  from assms(4) obtain p where p: "compile_filter (regex_i st) (export_filter q) = Inr p"
    and f: "found = sort_key (\<lambda>b. - createdAt b) (filter p (bugs st))"
    by (auto simp: find_sorted_def split: sum.splits)
  have fs: "f_type (export_filter q) = Some v"
    using assms(1,2) by (simp add: export_filter_def Let_def truthy_def)
  have "\<not> p b" for b
  proof
    assume "p b"
    with p fs have "type_str (bug_type b) = v"
      by (auto simp: compile_filter_def eq_str_def split: sum.splits)
    with type_str_enum [of "bug_type b"] assms(3) show False by simp
  qed
  then show ?thesis by (simp add: f)
qed

text \<open>Whether the store accepts a filter does not depend on its string keys.\<close>

lemma accepted_indep:
  assumes "find_sorted st f = Inr found"
    and "f_assignedTo f' = f_assignedTo f" "f_reporter f' = f_reporter f" "f_or f' = f_or f"
  shows "\<exists>found'. find_sorted st f' = Inr found'"
  using assms by (auto simp: find_sorted_def compile_filter_def split: sum.splits)

lemma export_filter_keys:
  "f_assignedTo (export_filter (q\<lparr>q_status := x\<rparr>)) = f_assignedTo (export_filter q)"
  "f_reporter (export_filter (q\<lparr>q_status := x\<rparr>)) = f_reporter (export_filter q)"
  "f_or (export_filter (q\<lparr>q_status := x\<rparr>)) = f_or (export_filter q)"
  "f_assignedTo (export_filter (q\<lparr>q_priority := x\<rparr>)) = f_assignedTo (export_filter q)"
  "f_reporter (export_filter (q\<lparr>q_priority := x\<rparr>)) = f_reporter (export_filter q)"
  "f_or (export_filter (q\<lparr>q_priority := x\<rparr>)) = f_or (export_filter q)"
  "f_assignedTo (export_filter (q\<lparr>q_type := x\<rparr>)) = f_assignedTo (export_filter q)"
  "f_reporter (export_filter (q\<lparr>q_type := x\<rparr>)) = f_reporter (export_filter q)"
  "f_or (export_filter (q\<lparr>q_type := x\<rparr>)) = f_or (export_filter q)"
  by (simp_all add: export_filter_def Let_def)

lemma export_ok_found:
  "export_bugs st toISOString q \<noteq> ServerError500 \<Longrightarrow>
     \<exists>found. find_sorted st (export_filter q) = Inr found"
  by (auto simp: export_bugs_cases split: sum.splits)

lemma export_header_only:
  "find_sorted st (export_filter q) = Inr [] \<Longrightarrow> export_bugs st toISOString q = Ok200 csvHeader"
  by (simp add: export_bugs_cases)

text \<open>
  Claim C10, as the code has it. The export has no validator chain: it never answers
  with the client-input rejection, and the raw values go into the store predicate.
  Where the listing rejects an unrecognised status, priority or type with status
  400, the export of an otherwise accepted query returns a CSV body, the header alone
  since no record carries such a value. Where the listing rejects a malformed
  \<open>assignedTo\<close> or \<open>reporter\<close>, the store cannot cast the value to an identifier and
  the export answers with the server-side failure (status 500), not with a CSV body.
  The identifier validator of the listing is wider than the cast of the store: a
  value of 24 characters made of the prefix \<open>0x\<close> and hexadecimal digits passes the
  validator, and then the listing, too, answers with status 500.
\<close>

theorem export_not_validated:
  "(\<forall>errs. export_bugs st toISOString q \<noteq> BadRequest400 errs)
   \<and> (truthy (q_status q) \<longrightarrow> f_status (export_filter q) = q_status q)
   \<and> (truthy (q_priority q) \<longrightarrow> f_priority (export_filter q) = q_priority q)
   \<and> (truthy (q_type q) \<longrightarrow> f_type (export_filter q) = q_type q)
   \<and> (truthy (q_reporter q) \<longrightarrow> f_reporter (export_filter q) = q_reporter q)
   \<and> (truthy (q_assignedTo q) \<and> q_unassigned q \<noteq> Some ''true'' \<longrightarrow>
        f_assignedTo (export_filter q) = map_option Str (q_assignedTo q))
   \<and> (v \<notin> set [''open'', ''in-progress'', ''resolved'', ''closed'', ''reopened''] \<longrightarrow>
        ''status'' \<in> set (validate_list (q\<lparr>q_status := Some v\<rparr>))
        \<and> list_bugs st (q\<lparr>q_status := Some v\<rparr>)
            = BadRequest400 (validate_list (q\<lparr>q_status := Some v\<rparr>))
        \<and> (v \<noteq> [] \<and> export_bugs st toISOString q \<noteq> ServerError500 \<longrightarrow>
             export_bugs st toISOString (q\<lparr>q_status := Some v\<rparr>) = Ok200 csvHeader))
   \<and> (v \<notin> set [''low'', ''medium'', ''high'', ''critical''] \<longrightarrow>
        ''priority'' \<in> set (validate_list (q\<lparr>q_priority := Some v\<rparr>))
        \<and> list_bugs st (q\<lparr>q_priority := Some v\<rparr>)
            = BadRequest400 (validate_list (q\<lparr>q_priority := Some v\<rparr>))
        \<and> (v \<noteq> [] \<and> export_bugs st toISOString q \<noteq> ServerError500 \<longrightarrow>
             export_bugs st toISOString (q\<lparr>q_priority := Some v\<rparr>) = Ok200 csvHeader))
   \<and> (v \<notin> set [''bug'', ''feature'', ''improvement'', ''task''] \<longrightarrow>
        ''type'' \<in> set (validate_list (q\<lparr>q_type := Some v\<rparr>))
        \<and> list_bugs st (q\<lparr>q_type := Some v\<rparr>)
            = BadRequest400 (validate_list (q\<lparr>q_type := Some v\<rparr>))
        \<and> (v \<noteq> [] \<and> export_bugs st toISOString q \<noteq> ServerError500 \<longrightarrow>
             export_bugs st toISOString (q\<lparr>q_type := Some v\<rparr>) = Ok200 csvHeader))
   \<and> (\<not> isMongoId v \<longrightarrow>
        ''assignedTo'' \<in> set (validate_list (q\<lparr>q_assignedTo := Some v\<rparr>))
        \<and> list_bugs st (q\<lparr>q_assignedTo := Some v\<rparr>)
            = BadRequest400 (validate_list (q\<lparr>q_assignedTo := Some v\<rparr>))
        \<and> (v \<noteq> [] \<and> q_unassigned q \<noteq> Some ''true'' \<longrightarrow>
             export_bugs st toISOString (q\<lparr>q_assignedTo := Some v\<rparr>) = ServerError500))
   \<and> (\<not> isMongoId v \<longrightarrow>
        ''reporter'' \<in> set (validate_list (q\<lparr>q_reporter := Some v\<rparr>))
        \<and> list_bugs st (q\<lparr>q_reporter := Some v\<rparr>)
            = BadRequest400 (validate_list (q\<lparr>q_reporter := Some v\<rparr>))
        \<and> (v \<noteq> [] \<longrightarrow>
             export_bugs st toISOString (q\<lparr>q_reporter := Some v\<rparr>) = ServerError500))
   \<and> (castObjectId v = None \<and> v \<noteq> [] \<longrightarrow>
        (q_unassigned q \<noteq> Some ''true'' \<longrightarrow>
           export_bugs st toISOString (q\<lparr>q_assignedTo := Some v\<rparr>) = ServerError500
           \<and> (validate_list (q\<lparr>q_assignedTo := Some v\<rparr>) = [] \<longrightarrow>
                list_bugs st (q\<lparr>q_assignedTo := Some v\<rparr>) = ServerError500))
        \<and> export_bugs st toISOString (q\<lparr>q_reporter := Some v\<rparr>) = ServerError500
        \<and> (validate_list (q\<lparr>q_reporter := Some v\<rparr>) = [] \<longrightarrow>
             list_bugs st (q\<lparr>q_reporter := Some v\<rparr>) = ServerError500))"
proof -
  have never: "\<forall>errs. export_bugs st toISOString q \<noteq> BadRequest400 errs"
    by (simp add: export_bugs_cases split: sum.splits)
  have reject: "x \<in> set (validate_list q') \<Longrightarrow> list_bugs st q' = BadRequest400 (validate_list q')"
    for x q'
    by (rule list_bugs_rejects) auto
  have st: "export_bugs st toISOString (q\<lparr>q_status := Some v\<rparr>) = Ok200 csvHeader"
    if "v \<notin> set [''open'', ''in-progress'', ''resolved'', ''closed'', ''reopened'']"
      and "v \<noteq> []" and "export_bugs st toISOString q \<noteq> ServerError500"
  proof -
    from export_ok_found [OF that(3)] obtain found
      where "find_sorted st (export_filter q) = Inr found" by blast
    from accepted_indep [OF this export_filter_keys(1,2,3)] obtain found'
      where f: "find_sorted st (export_filter (q\<lparr>q_status := Some v\<rparr>)) = Inr found'" by blast
    from export_bad_status [OF _ that(2) that(1) f] have "found' = []" by simp
    with f show ?thesis by (simp add: export_header_only)
  qed
  have pr: "export_bugs st toISOString (q\<lparr>q_priority := Some v\<rparr>) = Ok200 csvHeader"
    if "v \<notin> set [''low'', ''medium'', ''high'', ''critical'']"
      and "v \<noteq> []" and "export_bugs st toISOString q \<noteq> ServerError500"
  proof -
    from export_ok_found [OF that(3)] obtain found
      where "find_sorted st (export_filter q) = Inr found" by blast
    from accepted_indep [OF this export_filter_keys(4,5,6)] obtain found'
      where f: "find_sorted st (export_filter (q\<lparr>q_priority := Some v\<rparr>)) = Inr found'" by blast
    from export_bad_priority [OF _ that(2) that(1) f] have "found' = []" by simp
    with f show ?thesis by (simp add: export_header_only)
  qed
  have ty: "export_bugs st toISOString (q\<lparr>q_type := Some v\<rparr>) = Ok200 csvHeader"
    if "v \<notin> set [''bug'', ''feature'', ''improvement'', ''task'']"
      and "v \<noteq> []" and "export_bugs st toISOString q \<noteq> ServerError500"
  proof -
    from export_ok_found [OF that(3)] obtain found
      where "find_sorted st (export_filter q) = Inr found" by blast
    from accepted_indep [OF this export_filter_keys(7,8,9)] obtain found'
      where f: "find_sorted st (export_filter (q\<lparr>q_type := Some v\<rparr>)) = Inr found'" by blast
    from export_bad_type [OF _ that(2) that(1) f] have "found' = []" by simp
    with f show ?thesis by (simp add: export_header_only)
  qed
  have asg: "export_bugs st toISOString (q\<lparr>q_assignedTo := Some v\<rparr>) = ServerError500"
    if "castObjectId v = None" and "v \<noteq> []" and "q_unassigned q \<noteq> Some ''true''"
    using export_bad_identifier [of "q\<lparr>q_assignedTo := Some v\<rparr>" v st] that
    by (simp add: export_bugs_cases)
  have rep: "export_bugs st toISOString (q\<lparr>q_reporter := Some v\<rparr>) = ServerError500"
    if "castObjectId v = None" and "v \<noteq> []"
    using export_bad_identifier [of "q\<lparr>q_reporter := Some v\<rparr>" v st] that
    by (simp add: export_bugs_cases)
  have lasg: "list_bugs st (q\<lparr>q_assignedTo := Some v\<rparr>) = ServerError500"
    if "castObjectId v = None" and "v \<noteq> []" and "q_unassigned q \<noteq> Some ''true''"
      and "validate_list (q\<lparr>q_assignedTo := Some v\<rparr>) = []"
    using export_bad_identifier [of "q\<lparr>q_assignedTo := Some v\<rparr>" v st] that
    by (intro list_bugs_store_error [of _ _ CastError]) (simp_all add: filters_equal)
  have lrep: "list_bugs st (q\<lparr>q_reporter := Some v\<rparr>) = ServerError500"
    if "castObjectId v = None" and "v \<noteq> []"
      and "validate_list (q\<lparr>q_reporter := Some v\<rparr>) = []"
    using export_bad_identifier [of "q\<lparr>q_reporter := Some v\<rparr>" v st] that
    by (intro list_bugs_store_error [of _ _ CastError]) (simp_all add: filters_equal)
  note c = castObjectId_isMongoId [of v]
  show ?thesis
    using never st pr ty asg rep lasg lrep c export_filter_raw [of q]
      reject [OF validate_list_status [of "q\<lparr>q_status := Some v\<rparr>" v]]
      validate_list_status [of "q\<lparr>q_status := Some v\<rparr>" v]
      reject [OF validate_list_priority [of "q\<lparr>q_priority := Some v\<rparr>" v]]
      validate_list_priority [of "q\<lparr>q_priority := Some v\<rparr>" v]
      reject [OF validate_list_type [of "q\<lparr>q_type := Some v\<rparr>" v]]
      validate_list_type [of "q\<lparr>q_type := Some v\<rparr>" v]
      reject [OF validate_list_assignedTo [of "q\<lparr>q_assignedTo := Some v\<rparr>" v]]
      validate_list_assignedTo [of "q\<lparr>q_assignedTo := Some v\<rparr>" v]
      reject [OF validate_list_reporter [of "q\<lparr>q_reporter := Some v\<rparr>" v]]
      validate_list_reporter [of "q\<lparr>q_reporter := Some v\<rparr>" v]
    by simp
qed

theorem export_not_validated_witness:
  "truthy (q_status full_query) \<and> truthy (q_priority full_query) \<and> truthy (q_type full_query)
   \<and> truthy (q_reporter full_query) \<and> truthy (q_assignedTo full_query)
   \<and> ''done'' \<notin> set [''open'', ''in-progress'', ''resolved'', ''closed'', ''reopened'']
   \<and> ''done'' \<notin> set [''low'', ''medium'', ''high'', ''critical'']
   \<and> ''done'' \<notin> set [''bug'', ''feature'', ''improvement'', ''task'']
   \<and> \<not> isMongoId ''done'' \<and> ''done'' \<noteq> []
   \<and> q_unassigned full_query \<noteq> Some ''true''
   \<and> export_bugs example_store example_iso full_query
       = Ok200 (csvHeader @ csv_row example_users example_iso bug2)
   \<and> f_status (export_filter full_query) = Some ''closed''
   \<and> f_assignedTo (export_filter full_query) = Some (Str bob_id)
   \<and> list_bugs example_store (full_query\<lparr>q_status := Some ''done''\<rparr>)
       = BadRequest400 [''status'']
   \<and> export_bugs example_store example_iso (full_query\<lparr>q_status := Some ''done''\<rparr>)
       = Ok200 csvHeader
   \<and> export_bugs example_store example_iso (full_query\<lparr>q_priority := Some ''done''\<rparr>)
       = Ok200 csvHeader
   \<and> export_bugs example_store example_iso (full_query\<lparr>q_type := Some ''done''\<rparr>)
       = Ok200 csvHeader
   \<and> list_bugs example_store (full_query\<lparr>q_assignedTo := Some ''done''\<rparr>)
       = BadRequest400 [''assignedTo'']
   \<and> export_bugs example_store example_iso (full_query\<lparr>q_assignedTo := Some ''done''\<rparr>)
       = ServerError500
   \<and> export_bugs example_store example_iso (full_query\<lparr>q_reporter := Some ''done''\<rparr>)
       = ServerError500
   \<and> isMongoId prefixed_id \<and> castObjectId prefixed_id = None \<and> prefixed_id \<noteq> []
   \<and> validate_list (full_query\<lparr>q_assignedTo := Some prefixed_id\<rparr>) = []
   \<and> list_bugs example_store (full_query\<lparr>q_assignedTo := Some prefixed_id\<rparr>)
       = ServerError500
   \<and> export_bugs example_store example_iso (full_query\<lparr>q_assignedTo := Some prefixed_id\<rparr>)
       = ServerError500"
proof -
  have t: "truthy (q_status full_query) \<and> truthy (q_priority full_query)
      \<and> truthy (q_type full_query) \<and> truthy (q_reporter full_query)
      \<and> truthy (q_assignedTo full_query)"
    by (simp add: full_query_def no_query_def truthy_def ada_id_def bob_id_def)
  have h1: "''done'' \<notin> set [''open'', ''in-progress'', ''resolved'', ''closed'', ''reopened'']"
    by simp
  have h2: "''done'' \<notin> set [''low'', ''medium'', ''high'', ''critical'']"
    by simp
  have h3: "''done'' \<notin> set [''bug'', ''feature'', ''improvement'', ''task'']"
    by simp
  have h4: "\<not> isMongoId ''done''"
    by (simp add: isMongoId_def)
  have c4: "castObjectId ''done'' = None"
    by (simp add: castObjectId_def)
  have h5: "''done'' \<noteq> []"
    by simp
  have h6: "q_unassigned full_query \<noteq> Some ''true''"
    by (simp add: full_query_def no_query_def)
  have h7: "export_bugs example_store example_iso full_query
       = Ok200 (csvHeader @ csv_row example_users example_iso bug2)"
    by code_simp
  have q: "q_status full_query = Some ''closed''" "q_assignedTo full_query = Some bob_id"
    by (simp_all add: full_query_def no_query_def)
  have v1: "validate_list (full_query\<lparr>q_status := Some ''done''\<rparr>) = [''status'']"
    by code_simp
  have v2: "validate_list (full_query\<lparr>q_assignedTo := Some ''done''\<rparr>) = [''assignedTo'']"
    by code_simp
  have p1: "isMongoId prefixed_id \<and> castObjectId prefixed_id = None \<and> prefixed_id \<noteq> []"
    by code_simp
  have p2: "validate_list (full_query\<lparr>q_assignedTo := Some prefixed_id\<rparr>) = []"
    by code_simp
  from export_not_validated [of example_store example_iso full_query "''done''"]
    export_not_validated [of example_store example_iso full_query prefixed_id]
    t h1 h2 h3 h4 c4 h5 h6 h7 q v1 v2 p1 p2
  show ?thesis by simp
qed

text \<open>
  The export with the malformed identifier \<open>abc\<close> as \<open>assignedTo\<close> returns no CSV body.
\<close>

theorem export_malformed_id_counterexample:
  "\<not> isMongoId ''abc''
   \<and> q_assignedTo bad_assignee_query = Some ''abc''
   \<and> export_bugs example_store example_iso bad_assignee_query = ServerError500"
  by code_simp

section \<open>Properties of the search clause\<close>

lemma starts_with_prefix: "starts_with s t \<longleftrightarrow> (\<exists>post. t = s @ post)"
  by (induction s t rule: starts_with.induct) auto

lemma includes_str_iff: "includes_str s t \<longleftrightarrow> (\<exists>pre post. t = pre @ s @ post)"
proof (induction t)
  case Nil
  then show ?case by (simp add: starts_with_prefix)
next
  case (Cons c t)
  show ?case
  proof
    assume "includes_str s (c # t)"
    then consider "starts_with s (c # t)" | "includes_str s t" by auto
    then show "\<exists>pre post. c # t = pre @ s @ post"
    proof cases
      case 1
      then obtain post where "c # t = s @ post" by (auto simp: starts_with_prefix)
      then have "c # t = [] @ s @ post" by simp
      then show ?thesis by blast
    next
      case 2
      with Cons obtain pre post where "t = pre @ s @ post" by blast
      then have "c # t = (c # pre) @ s @ post" by simp
      then show ?thesis by blast
    qed
  next
    assume "\<exists>pre post. c # t = pre @ s @ post"
    then obtain pre post where e: "c # t = pre @ s @ post" by blast
    show "includes_str s (c # t)"
    proof (cases pre)
      case Nil
      with e have "starts_with s (c # t)" by (auto simp: starts_with_prefix)
      then show ?thesis by simp
    next
      case (Cons a pre')
      with e have "t = pre' @ s @ post" by simp
      with Cons.IH have "includes_str s t" by blast
      then show ?thesis by simp
    qed
  qed
qed

lemma matches_here_literal:
  "matches_here (map Lit s) t = starts_with (map toLowerCase_char s) (map toLowerCase_char t)"
proof (induction s arbitrary: t)
  case Nil
  then show ?case by simp
next
  case (Cons a s)
  then show ?case by (cases t) auto
qed

lemma rx_search_literal:
  "rx_search (map Lit s) t = includes_str (map toLowerCase_char s) (map toLowerCase_char t)"
  by (induction t) (simp_all add: matches_here_literal)

text \<open>
  On a pattern without metacharacters the engine decides substring containment
  ignoring case.
\<close>

lemma literal_regex_is_substring:
  assumes "\<not> list_ex rx_meta s"
  shows "literal_dot_regex s = Some (\<lambda>t. includes_ci s t)"
proof -
  from assms have "\<forall>c\<in>set s. \<not> rx_meta c"
    by (simp add: list_ex_iff)
  then have "parse_literal_dot s = Some (map Lit s)"
    by (auto simp: parse_literal_dot_def list_ex_iff rx_meta_def)
  then show ?thesis
    by (simp add: literal_dot_regex_def rx_search_literal includes_ci_def fun_eq_iff)
qed

text \<open>
  Claim C4. The claim asks that a record match the search value exactly when the
  value is a substring of its title or description, ignoring case, with no other
  reading of its characters. The handler passes the value to \<open>$regex\<close> unescaped:
  the search value \<open>a.c\<close> lists the record titled \<open>abc\<close>, although \<open>a.c\<close> is a
  substring neither of its title nor of its description.
\<close>

theorem regex_search_not_substring:
  "validate_list dot_query = []
   \<and> list_bugs example_store dot_query
       = Ok200 \<lparr>data_bugs = [bug1],
                data_pagination = \<lparr>currentPage = Num 1, totalPages = Num 1, totalCount = 1,
                                    hasNext = False, hasPrev = False\<rparr>\<rparr>
   \<and> title bug1 = ''abc''
   \<and> \<not> includes_ci ''a.c'' (title bug1)
   \<and> \<not> includes_ci ''a.c'' (description bug1)"
  by code_simp

section \<open>Properties of the analytics report\<close>

lemma sum_add_to_group: "sum_list (map snd (add_to_group k gs)) = Suc (sum_list (map snd gs))"
  by (induction k gs rule: add_to_group.induct) simp_all

lemma sum_fold_groups:
  "sum_list (map snd (foldl (\<lambda>gs k. add_to_group k gs) gs ks))
     = sum_list (map snd gs) + length ks"
  by (induction ks arbitrary: gs) (simp_all add: sum_add_to_group)

lemma sum_group_count: "sum_list (map snd (group_count ks)) = length ks"
  by (simp add: group_count_def sum_fold_groups)

lemma keys_add_to_group: "map fst (add_to_group k gs) = (if k \<in> fst ` set gs then map fst gs else map fst gs @ [k])"
  by (induction k gs rule: add_to_group.induct) auto

lemma distinct_add_to_group: "distinct (map fst gs) \<Longrightarrow> distinct (map fst (add_to_group k gs))"
  by (simp add: keys_add_to_group)

lemma distinct_fold_groups:
  "distinct (map fst gs) \<Longrightarrow> distinct (map fst (foldl (\<lambda>gs k. add_to_group k gs) gs ks))"
  by (induction ks arbitrary: gs) (simp_all add: distinct_add_to_group)

lemma distinct_group_count: "distinct (map fst (group_count ks))"
  by (simp add: group_count_def distinct_fold_groups)

lemma map_of_add_to_group:
  "map_of (add_to_group k gs) k' =
     (if k' = k then Some (case map_of gs k of None \<Rightarrow> 1 | Some n \<Rightarrow> Suc n) else map_of gs k')"
  by (induction k gs rule: add_to_group.induct) auto

lemma map_of_fold_groups:
  "map_of (foldl (\<lambda>gs k. add_to_group k gs) gs ks) k =
     (case map_of gs k of
        None \<Rightarrow> if k \<in> set ks then Some (count_list ks k) else None
      | Some n \<Rightarrow> Some (n + count_list ks k))"
proof (induction ks arbitrary: gs)
  case Nil
  then show ?case by (simp split: option.splits)
next
  case (Cons a ks)
  show ?case
    by (simp add: Cons.IH map_of_add_to_group count_list_0_iff split: option.splits)
qed

lemma map_of_group_count:
  "map_of (group_count ks) k = (if k \<in> set ks then Some (count_list ks k) else None)"
  by (simp add: group_count_def map_of_fold_groups)

lemma group_count_entry:
  assumes "(k, n) \<in> set (group_count ks)"
  shows "n = count_list ks k"
proof -
  from assms distinct_group_count [of ks] have "map_of (group_count ks) k = Some n"
    by simp
  then show ?thesis
    by (simp add: map_of_group_count split: if_splits)
qed

lemma group_count_values:
  "map snd (group_count ks) = map (count_list ks) (map fst (group_count ks))"
proof -
  have "snd e = count_list ks (fst e)" if "e \<in> set (group_count ks)" for e
    using group_count_entry [of "fst e" "snd e" ks] that by simp
  then show ?thesis by simp
qed

lemma count_list_map: "count_list (map f xs) v = length (filter (\<lambda>x. f x = v) xs)"
  by (induction xs) simp_all

lemma analytics_distributions:
  "statusDistribution (fst (analytics tz st c)) = group_count (map status (bugs st))"
  "priorityDistribution (fst (analytics tz st c)) = group_count (map priority (bugs st))"
  "totalBugs (fst (analytics tz st c)) = length (bugs st)"
  by (simp_all add: analytics_def Let_def split: prod.splits)

text \<open>
  Claim C7. Over a fixed store, the counts of the status distribution of the
  analytics report add up to the total number of records, and so do the counts of
  the priority distribution: each distribution has one group per value that occurs,
  and the count of a group is the number of records with that value.
\<close>

theorem distribution_sums:
  "sum_list (map snd (statusDistribution (fst (analytics tz st c)))) = totalBugs (fst (analytics tz st c))
   \<and> sum_list (map snd (priorityDistribution (fst (analytics tz st c))))
       = totalBugs (fst (analytics tz st c))
   \<and> distinct (map fst (statusDistribution (fst (analytics tz st c))))
   \<and> distinct (map fst (priorityDistribution (fst (analytics tz st c))))
   \<and> map snd (statusDistribution (fst (analytics tz st c)))
       = map (\<lambda>s. count_where st (\<lambda>b. status b = s))
           (map fst (statusDistribution (fst (analytics tz st c))))
   \<and> map snd (priorityDistribution (fst (analytics tz st c)))
       = map (\<lambda>p. count_where st (\<lambda>b. priority b = p))
           (map fst (priorityDistribution (fst (analytics tz st c))))"
proof -
  have cs: "count_list (map status (bugs st)) = (\<lambda>s. count_where st (\<lambda>b. status b = s))"
    by (simp add: fun_eq_iff count_list_map count_where_def)
  have cp: "count_list (map priority (bugs st)) = (\<lambda>p. count_where st (\<lambda>b. priority b = p))"
    by (simp add: fun_eq_iff count_list_map count_where_def)
  show ?thesis
    using group_count_values [of "map status (bugs st)"]
      group_count_values [of "map priority (bugs st)"]
    by (simp add: analytics_distributions sum_group_count distinct_group_count cs cp)
qed

theorem distribution_sums_witness:
  "statusDistribution (fst (analytics utc_zone example_store frozen_clock)) = [(Open, 1), (Closed, 1)]
   \<and> priorityDistribution (fst (analytics utc_zone example_store frozen_clock))
       = [(High, 1), (Critical, 1)]
   \<and> totalBugs (fst (analytics utc_zone example_store frozen_clock)) = 2
   \<and> sum_list (map snd (statusDistribution (fst (analytics utc_zone example_store frozen_clock))))
       = totalBugs (fst (analytics utc_zone example_store frozen_clock))
   \<and> sum_list (map snd (priorityDistribution (fst (analytics utc_zone example_store frozen_clock))))
       = totalBugs (fst (analytics utc_zone example_store frozen_clock))"
proof -
  have v: "statusDistribution (fst (analytics utc_zone example_store frozen_clock))
             = [(Open, 1), (Closed, 1)]
           \<and> priorityDistribution (fst (analytics utc_zone example_store frozen_clock))
             = [(High, 1), (Critical, 1)]
           \<and> totalBugs (fst (analytics utc_zone example_store frozen_clock)) = 2"
    by (simp add: analytics_distributions example_store_def bug1_def bug2_def group_count_def)
  from distribution_sums [of utc_zone example_store frozen_clock] v show ?thesis
    by blast
qed

lemma analytics_reads:
  "analytics tz st c =
     ((analytics_single_now tz st (readings c (reads c)))
        \<lparr>monthlyTrend :=
           monthly_trend st
             (setMonth tz (readings c (Suc (reads c))) (getMonth tz (readings c (Suc (reads c))) - 6))\<rparr>,
      c\<lparr>reads := reads c + 2\<rparr>)"
  by (simp add: analytics_def analytics_single_now_def new_Date_def Let_def)

text \<open>
  Claim C6, as the code has it. One invocation of the analytics handler reads the
  clock twice: the recent window starts seven days before the first reading, the
  monthly window six months before the second reading, taken after the recent count
  and the assignee aggregation; both are computed on the calendar of the server's
  time zone. If the two readings coincide, the report is the one derived from a
  single captured \<open>now\<close>.
\<close>

theorem analytics_two_clock_reads:
  "recentBugs (fst (analytics tz st c))
     = count_where st (\<lambda>b. createdAt b \<ge> setDate tz (readings c (reads c))
                                              (getDate tz (readings c (reads c)) - 7))
   \<and> monthlyTrend (fst (analytics tz st c))
     = monthly_trend st (setMonth tz (readings c (Suc (reads c)))
                                  (getMonth tz (readings c (Suc (reads c))) - 6))
   \<and> snd (analytics tz st c) = c\<lparr>reads := reads c + 2\<rparr>
   \<and> (readings c (Suc (reads c)) = readings c (reads c) \<longrightarrow>
        fst (analytics tz st c) = analytics_single_now tz st (readings c (reads c)))"
  by (simp add: analytics_reads) (simp add: analytics_single_now_def)

theorem analytics_two_clock_reads_witness:
  "readings frozen_clock (Suc (reads frozen_clock)) = readings frozen_clock (reads frozen_clock)
   \<and> fst (analytics utc_zone clock_store frozen_clock) = analytics_single_now utc_zone clock_store 1726358400000
   \<and> reads (snd (analytics utc_zone clock_store frozen_clock)) = 2"
  using analytics_two_clock_reads [of utc_zone clock_store frozen_clock]
  by (simp add: frozen_clock_def)

text \<open>
  With a clock that advances by one millisecond between the two reads, the report
  counts the record created seven days before the first reading as recent and leaves
  the record created six months before the first reading out of the trend: it is the
  report of a single \<open>now\<close> neither at the first reading nor at the second.
\<close>

theorem analytics_clock_counterexample:
  "readings ticking_clock 0 = 1726358400000
   \<and> readings ticking_clock 1 = 1726358400001
   \<and> recentBugs (fst (analytics utc_zone clock_store ticking_clock)) = 1
   \<and> monthlyTrend (fst (analytics utc_zone clock_store ticking_clock)) = [(''2024-09'', 1)]
   \<and> monthlyTrend (analytics_single_now utc_zone clock_store 1726358400000)
       = [(''2024-03'', 1), (''2024-09'', 1)]
   \<and> recentBugs (analytics_single_now utc_zone clock_store 1726358400001) = 0
   \<and> fst (analytics utc_zone clock_store ticking_clock) \<noteq> analytics_single_now utc_zone clock_store 1726358400000
   \<and> fst (analytics utc_zone clock_store ticking_clock) \<noteq> analytics_single_now utc_zone clock_store 1726358400001"
proof -
  have d1: "setDate utc_zone 1726358400000 (getDate utc_zone 1726358400000 - 7) = 1725753600000"
    by code_simp
  have d2: "setDate utc_zone 1726358400001 (getDate utc_zone 1726358400001 - 7) = 1725753600001"
    by code_simp
  have m1: "setMonth utc_zone 1726358400000 (getMonth utc_zone 1726358400000 - 6) = 1710460800000"
    by code_simp
  have m2: "setMonth utc_zone 1726358400001 (getMonth utc_zone 1726358400001 - 6) = 1710460800001"
    by code_simp
  have ym: "year_of 1710460800000 = 2024" "month_of 1710460800000 = 3"
    "year_of 1725753600000 = 2024" "month_of 1725753600000 = 9"
    by code_simp+
  have sh: "show_int 2024 = ''2024''" "show_int 3 = ''3''" "show_int 9 = ''9''"
    by (simp_all add: show_int_def show_nat.simps digit_char_def)
  have t1: "monthly_trend clock_store 1710460800000 = [(''2024-03'', 1), (''2024-09'', 1)]"
    by (simp add: monthly_trend_def clock_store_def bug1_def bug3_def group_count_def ym sh
        padStart2_def)
  have t2: "monthly_trend clock_store 1710460800001 = [(''2024-09'', 1)]"
    by (simp add: monthly_trend_def clock_store_def bug1_def bug3_def group_count_def ym sh
        padStart2_def)
  have r1: "count_where clock_store (\<lambda>b. createdAt b \<ge> 1725753600000) = 1"
    by (simp add: count_where_def clock_store_def bug1_def bug3_def)
  have r2: "count_where clock_store (\<lambda>b. createdAt b \<ge> 1725753600001) = 0"
    by (simp add: count_where_def clock_store_def bug1_def bug3_def)
  have c0: "readings ticking_clock 0 = 1726358400000" "readings ticking_clock 1 = 1726358400001"
    "reads ticking_clock = 0" "readings ticking_clock (Suc 0) = 1726358400001"
    by (simp_all add: ticking_clock_def)
  have a: "recentBugs (fst (analytics utc_zone clock_store ticking_clock)) = 1"
    by (simp add: analytics_reads analytics_single_now_def c0 d1 r1)
  have b: "monthlyTrend (fst (analytics utc_zone clock_store ticking_clock)) = [(''2024-09'', 1)]"
    by (simp add: analytics_reads c0 m2 t2)
  have c: "monthlyTrend (analytics_single_now utc_zone clock_store 1726358400000)
       = [(''2024-03'', 1), (''2024-09'', 1)]"
    by (simp add: analytics_single_now_def m1 t1)
  have d: "recentBugs (analytics_single_now utc_zone clock_store 1726358400001) = 0"
    by (simp add: analytics_single_now_def d2 r2)
  have e: "fst (analytics utc_zone clock_store ticking_clock) \<noteq> analytics_single_now utc_zone clock_store 1726358400000"
    using b c by auto
  have f: "fst (analytics utc_zone clock_store ticking_clock) \<noteq> analytics_single_now utc_zone clock_store 1726358400001"
    using a d by auto
  from c0 a b c d e f show ?thesis by simp
qed

section \<open>Properties of the write paths\<close>

text \<open>The save path: when the status was modified, the hook leaves the record consistent.\<close>

lemma pre_save_consistent: "resolvedAt_consistent (pre_save now True b)"
  by (simp add: pre_save_def resolvedAt_consistent_def)

lemma pre_save_unmodified: "pre_save now False b = b"
  by (simp add: pre_save_def)

text \<open>
  Claim C9. The claim asks that every write path keep the resolved timestamp present
  exactly for closed bugs, the update endpoint included. The update endpoint writes
  through \<open>findByIdAndUpdate\<close>, which does not run the \<open>pre('save')\<close> hook: closing
  an open bug leaves its resolved timestamp \<open>null\<close>, and reopening a closed bug keeps
  its resolved timestamp, where the hook would have set and cleared it.
\<close>

theorem update_bypasses_resolvedAt_hook:
  "resolvedAt_consistent bug1 \<and> resolvedAt_consistent bug2
   \<and> validate_update close_update = [] \<and> validate_update reopen_update = []
   \<and> fst (update_bug example_store 1726358400000 (bug_id bug1) close_update)
       = Ok200 (bug1\<lparr>status := Closed, updatedAt := 1726358400000\<rparr>)
   \<and> resolvedAt (bug1\<lparr>status := Closed, updatedAt := 1726358400000\<rparr>) = None
   \<and> bugs (snd (update_bug example_store 1726358400000 (bug_id bug1) close_update))
       = [bug1\<lparr>status := Closed, updatedAt := 1726358400000\<rparr>, bug2]
   \<and> fst (update_bug example_store 1726358400000 (bug_id bug2) reopen_update)
       = Ok200 (bug2\<lparr>status := Reopened, updatedAt := 1726358400000\<rparr>)
   \<and> resolvedAt (bug2\<lparr>status := Reopened, updatedAt := 1726358400000\<rparr>) = Some 1710547200000
   \<and> \<not> resolvedAt_consistent (bug1\<lparr>status := Closed, updatedAt := 1726358400000\<rparr>)
   \<and> \<not> resolvedAt_consistent (bug2\<lparr>status := Reopened, updatedAt := 1726358400000\<rparr>)
   \<and> resolvedAt (pre_save 1726358400000 True (bug1\<lparr>status := Closed\<rparr>)) = Some 1726358400000
   \<and> resolvedAt (pre_save 1726358400000 True (bug2\<lparr>status := Reopened\<rparr>)) = None"
  by code_simp

end
